theory Spec2Isabelle
  imports Complex_Main "HOL-Library.AList" "HOL-Library.Sublist" "HOL-Library.Signed_Division" "HOL-Library.Word"
begin

section \<open>CustomStreamTopQ: profile store, slide selector and liveness tracker\<close>

text \<open>
  A shallow embedding of the stateful logic of \<^verbatim>\<open>src/index.tsx\<close>. The module-level
  variables of the plugin become the fields of one record \<open>state\<close>; every function of the
  source takes the state and returns the new one.

  \<^item> \<open>Date.now()\<close> is the argument \<open>now\<close> (milliseconds, an integer).
  \<^item> \<open>Math.random()\<close> is a list of draws handed to the call; a call that uses up the list
    without leaving the \<^verbatim>\<open>do ... while\<close> loop returns \<open>None\<close>. A draw is a real number, and
    its product with the image count is taken in the reals.
  \<^item> \<open>FileReader.readAsDataURL\<close> (inside \<^verbatim>\<open>blobToDataUrl\<close>) and the canvas pipeline of
    \<^verbatim>\<open>processImage\<close> belong to the platform: they are the parameters \<open>rd\<close> and \<open>proc\<close>, and
    \<open>None\<close> is a rejected promise.
  \<^item> \<open>DataStore.get/set/del\<close> always succeed. An \<^verbatim>\<open>async\<close> function of the module is run to
    completion. The gallery's upload handler is not: it is cut where it awaits
    \<^verbatim>\<open>processImage\<close>, so that a second upload can start and run while the first one waits.
  \<^item> A profile object lives under exactly one key of the \<^verbatim>\<open>profiles\<close> map, so a reference
    to it is that key, and a write through the reference replaces the entry under the key.
  \<^item> JavaScript arrays are shared by reference: after \<^verbatim>\<open>syncCacheWithActiveProfile\<close> the
    variables \<^verbatim>\<open>cachedImages\<close> and \<^verbatim>\<open>cachedDataUris\<close> are the very arrays of a profile
    object, and a \<^verbatim>\<open>push\<close>, \<^verbatim>\<open>splice\<close> or element assignment on that profile shows through
    them at once. The field \<open>cacheRef\<close> records the key of that profile object; it is
    \<open>None\<close> while the cache variables hold arrays that belong to no profile of the map.
  \<^item> \<^verbatim>\<open>notifyImageChange\<close> only refreshes React component state and is left out.
\<close>

subsection \<open>Constants\<close>

definition DATASTORE_KEY :: string where
  "DATASTORE_KEY = ''CustomStreamTopQ_ImageData''"

definition DATASTORE_KEY_SLIDESHOW :: string where
  "DATASTORE_KEY_SLIDESHOW = ''CustomStreamTopQ_Slideshow''"

definition DATASTORE_KEY_INDEX :: string where
  "DATASTORE_KEY_INDEX = ''CustomStreamTopQ_SlideIndex''"

definition DATASTORE_KEY_PROFILES :: string where
  "DATASTORE_KEY_PROFILES = ''CustomStreamTopQ_Profiles''"

definition MAX_IMAGES :: int where
  "MAX_IMAGES = 50"

definition MAX_IMAGES_PER_PROFILE :: int where
  "MAX_IMAGES_PER_PROFILE = 50"

definition DEFAULT_PROFILE_ID :: string where
  "DEFAULT_PROFILE_ID = ''default''"

subsection \<open>Data model\<close>

text \<open>A \<^verbatim>\<open>Blob\<close>: its content type and its bytes.\<close>

record Blob =
  btype :: string
  bdata :: "8 word list"

text \<open>
  A value read from a JavaScript string array, or held by a \<^verbatim>\<open>string | null\<close> variable:
  reading past the end of an array gives \<^verbatim>\<open>undefined\<close>.
\<close>

datatype jsstr = JNull | JUndefined | JStr string

record Profile =
  pid :: string
  pname :: string
  images :: "Blob list"
  dataUris :: "jsstr list"
  currentIndex :: int

record StoredImageData =
  si_type :: string
  si_data :: "int list"

record SlideshowData =
  ss_images :: "StoredImageData list"

record StoredProfile =
  sp_id :: string
  sp_name :: string
  sp_images :: "StoredImageData list"
  sp_currentIndex :: int

record StoredProfilesData =
  spd_profiles :: "StoredProfile list"
  spd_activeProfileId :: string

text \<open>What a key of the \<^verbatim>\<open>DataStore\<close> can hold.\<close>

datatype dsval =
    VNumber int
  | VSlideshow SlideshowData
  | VProfiles StoredProfilesData
  | VOther

record state =
  profiles :: "(string \<times> Profile) list"
  activeProfileId :: string
  cachedImages :: "Blob list"
  cachedDataUris :: "jsstr list"
  currentSlideIndex :: int
  lastSlideChangeTime :: int
  isStreamActive :: bool
  manualSlideChange :: bool
  actualStreamImageUri :: jsstr
  replaceEnabled :: bool
  slideshowEnabled :: bool
  slideshowRandom :: bool
  dataStore :: "string \<rightharpoonup> dsval"
  cacheRef :: "string option"

subsection \<open>JavaScript arrays\<close>

text \<open>\<^verbatim>\<open>xs[i]\<close>: \<^verbatim>\<open>undefined\<close> outside the array.\<close>

definition js_get :: "jsstr list \<Rightarrow> int \<Rightarrow> jsstr" where
  "js_get xs i = (if 0 \<le> i \<and> i < int (length xs) then xs ! nat i else JUndefined)"

text \<open>\<^verbatim>\<open>xs[i] = v\<close> for \<open>i \<ge> 0\<close>: a write past the end extends the array, the gap reads as
  \<^verbatim>\<open>undefined\<close>.\<close>

definition js_set :: "jsstr list \<Rightarrow> int \<Rightarrow> jsstr \<Rightarrow> jsstr list" where
  "js_set xs i v =
     (if i < 0 then xs
      else if nat i < length xs then xs[nat i := v]
      else xs @ replicate (nat i - length xs) JUndefined @ [v])"

text \<open>\<^verbatim>\<open>xs.splice(start, 1)\<close>.\<close>

definition splice1 :: "'a list \<Rightarrow> int \<Rightarrow> 'a list" where
  "splice1 xs start =
     (let n = int (length xs);
          st = (if start < 0 then max (n + start) 0 else min start n)
      in take (nat st) xs @ drop (Suc (nat st)) xs)"

subsection \<open>The active profile and the cache\<close>

definition empty_default :: Profile where
  "empty_default =
     \<lparr>pid = DEFAULT_PROFILE_ID, pname = ''Default'', images = [], dataUris = [], currentIndex = 0\<rparr>"

text \<open>
  \<^verbatim>\<open>profiles.set(k, p)\<close> with a newly made object \<open>p\<close>: an object that was under the key is
  no longer in the map, and a cache that shares its arrays keeps them as they are.
\<close>

definition new_profile :: "string \<Rightarrow> Profile \<Rightarrow> state \<Rightarrow> state" where
  "new_profile k p s =
     s\<lparr>profiles := AList.update k p (profiles s),
       cacheRef := (if cacheRef s = Some k then None else cacheRef s)\<rparr>"

text \<open>
  \<^verbatim>\<open>getActiveProfile\<close> returns the profile together with the key it is stored under. When the
  active identifier names no profile, a fresh empty profile is stored under the default key.
\<close>

definition getActiveProfile :: "state \<Rightarrow> (string \<times> Profile) \<times> state" where
  "getActiveProfile s =
     (case map_of (profiles s) (activeProfileId s) of
        Some profile \<Rightarrow> ((activeProfileId s, profile), s)
      | None \<Rightarrow>
          ((DEFAULT_PROFILE_ID, empty_default),
           new_profile DEFAULT_PROFILE_ID empty_default s))"

text \<open>
  A write through a profile reference: the object under the key is changed in place, and
  a cache that shares its arrays shows the change.
\<close>

definition put_profile :: "string \<Rightarrow> Profile \<Rightarrow> state \<Rightarrow> state" where
  "put_profile k p s =
     (let s1 = s\<lparr>profiles := AList.update k p (profiles s)\<rparr>
      in if cacheRef s = Some k
         then s1\<lparr>cachedImages := images p, cachedDataUris := dataUris p\<rparr> else s1)"

definition syncCacheWithActiveProfile :: "state \<Rightarrow> state" where
  "syncCacheWithActiveProfile s =
     (case getActiveProfile s of
        ((k, profile), s1) \<Rightarrow>
          s1\<lparr>cachedImages := images profile,
             cachedDataUris := dataUris profile,
             currentSlideIndex := currentIndex profile,
             cacheRef := Some k\<rparr>)"

definition getImageCount :: "state \<Rightarrow> nat" where
  "getImageCount s = length (cachedImages s)"

subsection \<open>Persistence\<close>

definition stored_of_blob :: "Blob \<Rightarrow> StoredImageData" where
  "stored_of_blob blob = \<lparr>si_type = btype blob, si_data = map uint (bdata blob)\<rparr>"

text \<open>\<^verbatim>\<open>new Blob([new Uint8Array(img.data)], { type: img.type })\<close>: each number is reduced
  modulo 256.\<close>

definition blob_of_stored :: "StoredImageData \<Rightarrow> Blob" where
  "blob_of_stored img = \<lparr>btype = si_type img, bdata = map word_of_int (si_data img)\<rparr>"

definition stored_of_profile :: "Profile \<Rightarrow> StoredProfile" where
  "stored_of_profile profile =
     \<lparr>sp_id = pid profile, sp_name = pname profile,
      sp_images = map stored_of_blob (images profile),
      sp_currentIndex = currentIndex profile\<rparr>"

definition saveProfilesToDataStore :: "state \<Rightarrow> state" where
  "saveProfilesToDataStore s =
     syncCacheWithActiveProfile
       (s\<lparr>dataStore := (dataStore s)(DATASTORE_KEY_PROFILES \<mapsto>
            VProfiles \<lparr>spd_profiles = map (stored_of_profile \<circ> snd) (profiles s),
                       spd_activeProfileId = activeProfileId s\<rparr>)\<rparr>)"

definition saveSlideIndex :: "int \<Rightarrow> state \<Rightarrow> state" where
  "saveSlideIndex index s =
     (case getActiveProfile s of
        ((k, profile), s1) \<Rightarrow>
          saveProfilesToDataStore
            ((put_profile k (profile\<lparr>currentIndex := index\<rparr>) s1)\<lparr>currentSlideIndex := index\<rparr>))"

definition loadSlideIndex :: "state \<Rightarrow> int" where
  "loadSlideIndex s =
     (case dataStore s DATASTORE_KEY_INDEX of Some (VNumber index) \<Rightarrow> index | _ \<Rightarrow> 0)"

subsection \<open>Image operations on the active profile\<close>

definition deleteImageAtIndex :: "int \<Rightarrow> state \<Rightarrow> state" where
  "deleteImageAtIndex index s =
     (case getActiveProfile s of
        ((k, profile), s1) \<Rightarrow>
          if index < 0 \<or> index \<ge> int (length (images profile)) then s1
          else
            let p1 = profile\<lparr>images := splice1 (images profile) index,
                             dataUris := splice1 (dataUris profile) index\<rparr>;
                p2 = (if currentIndex p1 \<ge> int (length (images p1))
                      then p1\<lparr>currentIndex := 0\<rparr> else p1)
            in saveProfilesToDataStore (syncCacheWithActiveProfile (put_profile k p2 s1)))"

definition moveImage :: "int \<Rightarrow> int \<Rightarrow> state \<Rightarrow> state" where
  "moveImage fromIndex toIndex s =
     (case getActiveProfile s of
        ((k, profile), s1) \<Rightarrow>
          if fromIndex = toIndex then s1
          else if fromIndex < 0 \<or> fromIndex \<ge> int (length (images profile)) then s1
          else if toIndex < 0 \<or> toIndex \<ge> int (length (images profile)) then s1
          else
            let imgs = images profile;
                uris = dataUris profile;
                p1 = profile\<lparr>
                  images := imgs[nat fromIndex := imgs ! nat toIndex, nat toIndex := imgs ! nat fromIndex],
                  dataUris := js_set (js_set uris fromIndex (js_get uris toIndex))
                                     toIndex (js_get uris fromIndex)\<rparr>;
                p2 = (if currentIndex p1 = fromIndex then p1\<lparr>currentIndex := toIndex\<rparr>
                      else if currentIndex p1 = toIndex then p1\<lparr>currentIndex := fromIndex\<rparr>
                      else p1)
            in saveProfilesToDataStore (syncCacheWithActiveProfile (put_profile k p2 s1)))"

text \<open>The promise of an \<^verbatim>\<open>async\<close> function that can reject, with the state it leaves.\<close>

datatype settled = is_Fulfilled: Fulfilled (settled_state: state) | Rejected (settled_state: state)

definition addImage :: "(Blob \<Rightarrow> string option) \<Rightarrow> Blob \<Rightarrow> state \<Rightarrow> settled" where
  "addImage rd blob s =
     (case getActiveProfile s of
        ((k, profile), s1) \<Rightarrow>
          let p1 = profile\<lparr>images := images profile @ [blob]\<rparr> in
          (case rd blob of
             None \<Rightarrow> Rejected (put_profile k p1 s1)
           | Some uri \<Rightarrow>
               let p2 = p1\<lparr>dataUris := dataUris p1 @ [JStr uri]\<rparr>
               in Fulfilled (saveProfilesToDataStore
                               (syncCacheWithActiveProfile (put_profile k p2 s1)))))"

subsection \<open>Uploading files (the gallery's drop handler)\<close>

record File =
  ftype :: string
  fsize :: nat
  fdata :: "8 word list"

text \<open>What \<^verbatim>\<open>setError\<close> was last called with.\<close>

datatype ui_error =
    LimitReached
  | AddedLimitReached int
  | FileProcessingError

text \<open>
  \<open>currentProfileId\<close> is the profile tab the gallery shows (component state).
  \<^verbatim>\<open>loadImages\<close> refreshes component state from
  \<^verbatim>\<open>profiles.get(currentProfileId) || getActiveProfile()\<close>; of the module state it changes
  what \<^verbatim>\<open>getActiveProfile\<close> changes.
\<close>

definition loadImages :: "string \<Rightarrow> state \<Rightarrow> state" where
  "loadImages currentProfileId s =
     (case map_of (profiles s) currentProfileId of
        Some p \<Rightarrow> s
      | None \<Rightarrow> snd (getActiveProfile s))"

text \<open>
  \<^verbatim>\<open>handleDroppedFiles\<close> reads \<^verbatim>\<open>remaining\<close> once and then awaits \<^verbatim>\<open>processImage\<close> and
  \<^verbatim>\<open>addImage\<close> for every file, and the drop zone is not disabled meanwhile. While the handler
  waits for \<^verbatim>\<open>processImage(file)\<close> it holds an \<open>upload\<close>: the profile tab of its closure, its
  \<^verbatim>\<open>remaining\<close> and \<^verbatim>\<open>added\<close>, the file being processed and the files after it.
\<close>

record upload =
  up_profileId :: string
  up_remaining :: int
  up_added :: int
  up_file :: File
  up_rest :: "File list"

text \<open>
  The \<^verbatim>\<open>for (const file of files)\<close> loop from the top of an iteration up to the next
  \<^verbatim>\<open>await processImage(file)\<close> (result \<open>Inr\<close>), or to the end of the handler behind the loop
  (result \<open>Inl\<close>, with what \<^verbatim>\<open>setError\<close> was last called with, if it was called).
\<close>

fun upload_loop ::
  "string \<Rightarrow> int \<Rightarrow> int \<Rightarrow> File list \<Rightarrow> state \<Rightarrow> (ui_error option + upload) \<times> state" where
  "upload_loop currentProfileId remaining added [] s =
     (Inl None, loadImages currentProfileId s)"
| "upload_loop currentProfileId remaining added (file # files) s =
     (if added \<ge> remaining
        then (Inl (Some (AddedLimitReached added)), loadImages currentProfileId s)
      else if \<not> prefix ''image/'' (ftype file) \<or> ftype file = ''image/gif''
        then upload_loop currentProfileId remaining added files s
      else if fsize file > 8 * 1024 * 1024
        then upload_loop currentProfileId remaining added files s
      else
        (Inr \<lparr>up_profileId = currentProfileId, up_remaining = remaining, up_added = added,
              up_file = file, up_rest = files\<rparr>, s))"

text \<open>The handler from the drop to its first \<^verbatim>\<open>await\<close>, or to its early return.\<close>

definition handleDroppedFiles ::
  "string \<Rightarrow> File list \<Rightarrow> state \<Rightarrow> (ui_error option + upload) \<times> state" where
  "handleDroppedFiles currentProfileId files s =
     (case (case map_of (profiles s) currentProfileId of
              Some p \<Rightarrow> (p, s)
            | None \<Rightarrow> (snd (fst (getActiveProfile s)), snd (getActiveProfile s))) of
        (profile, s1) \<Rightarrow>
          let remaining = MAX_IMAGES_PER_PROFILE - int (length (images profile)) in
          if remaining \<le> 0 then (Inl (Some LimitReached), s1)
          else upload_loop currentProfileId remaining 0 files s1)"

text \<open>
  The handler from the moment \<^verbatim>\<open>processImage(file)\<close> settles: \<^verbatim>\<open>addImage\<close>, \<^verbatim>\<open>added++\<close> and
  the loop up to the next \<^verbatim>\<open>await processImage\<close> or to the end. A rejection of
  \<^verbatim>\<open>processImage\<close> or of \<^verbatim>\<open>addImage\<close> ends the handler in its \<^verbatim>\<open>catch\<close> clause. \<^verbatim>\<open>addImage\<close> is run
  to completion here, which is one of the orders the event loop allows.
\<close>

definition handleDroppedFiles_resume ::
  "(Blob \<Rightarrow> string option) \<Rightarrow> (File \<Rightarrow> Blob option) \<Rightarrow> upload \<Rightarrow> state
    \<Rightarrow> (ui_error option + upload) \<times> state" where
  "handleDroppedFiles_resume rd proc u s =
     (case proc (up_file u) of
        None \<Rightarrow> (Inl (Some FileProcessingError), s)
      | Some processedBlob \<Rightarrow>
          (case addImage rd processedBlob s of
             Rejected s' \<Rightarrow> (Inl (Some FileProcessingError), s')
           | Fulfilled s' \<Rightarrow>
               upload_loop (up_profileId u) (up_remaining u) (up_added u + 1) (up_rest u) s'))"

subsection \<open>Profiles\<close>

definition setActiveProfile :: "string \<Rightarrow> state \<Rightarrow> bool \<times> state" where
  "setActiveProfile profileId s =
     (if map_of (profiles s) profileId = None then (False, s)
      else (True, syncCacheWithActiveProfile (s\<lparr>activeProfileId := profileId\<rparr>)))"

definition deleteProfile :: "string \<Rightarrow> state \<Rightarrow> bool \<times> state" where
  "deleteProfile profileId s =
     (case map_of (profiles s) profileId of
        None \<Rightarrow> (False, s)
      | Some profile \<Rightarrow>
          if length (images profile) > 0 then (False, s)
          else if profileId = DEFAULT_PROFILE_ID then (False, s)
          else
            let s1 = s\<lparr>profiles := AList.delete profileId (profiles s),
                       cacheRef := (if cacheRef s = Some profileId then None else cacheRef s)\<rparr>
            in if activeProfileId s1 = profileId
               then (True, syncCacheWithActiveProfile (s1\<lparr>activeProfileId := DEFAULT_PROFILE_ID\<rparr>))
               else (True, s1))"

text \<open>
  \<^verbatim>\<open>deleteAllImages\<close> gives the profile object two new empty arrays: a cache that shares the old
  arrays keeps them until the next \<^verbatim>\<open>syncCacheWithActiveProfile\<close>.
\<close>

definition deleteAllImages :: "state \<Rightarrow> state" where
  "deleteAllImages s =
     (case getActiveProfile s of
        ((k, profile), s1) \<Rightarrow>
          saveProfilesToDataStore
            (syncCacheWithActiveProfile
               (s1\<lparr>profiles :=
                      AList.update k (profile\<lparr>images := [], dataUris := [], currentIndex := 0\<rparr>)
                        (profiles s1),
                   cacheRef := (if cacheRef s1 = Some k then None else cacheRef s1)\<rparr>)))"

subsection \<open>The gallery's life cycle\<close>

text \<open>What \<^verbatim>\<open>initialSettingsRef\<close> holds: the settings, the slide index and the active profile
  at the moment the gallery is opened.\<close>

record initial_settings =
  init_enabled :: bool
  init_slideshowEnabled :: bool
  init_slideshowRandom :: bool
  init_slideIndex :: int
  init_activeProfileId :: string

definition initialSettingsRef :: "state \<Rightarrow> initial_settings" where
  "initialSettingsRef s =
     \<lparr>init_enabled = replaceEnabled s, init_slideshowEnabled = slideshowEnabled s,
      init_slideshowRandom = slideshowRandom s, init_slideIndex = currentSlideIndex s,
      init_activeProfileId = activeProfileId s\<rparr>"

text \<open>The clean-up of the gallery when it is closed with nothing saved
  (\<^verbatim>\<open>savedRef.current\<close> is false).\<close>

definition close_unsaved :: "initial_settings \<Rightarrow> state \<Rightarrow> state" where
  "close_unsaved init s =
     snd (setActiveProfile (init_activeProfileId init)
            (s\<lparr>replaceEnabled := init_enabled init,
               slideshowEnabled := init_slideshowEnabled init,
               slideshowRandom := init_slideshowRandom init,
               currentSlideIndex := init_slideIndex init\<rparr>))"

subsection \<open>Loading and migration\<close>

text \<open>The inner loop that rebuilds blobs and data URLs; \<open>None\<close> when a read rejects.\<close>

fun restore_images ::
  "(Blob \<Rightarrow> string option) \<Rightarrow> StoredImageData list \<Rightarrow> (Blob list \<times> jsstr list) option" where
  "restore_images rd [] = Some ([], [])"
| "restore_images rd (img # imgs) =
     (case rd (blob_of_stored img) of
        None \<Rightarrow> None
      | Some uri \<Rightarrow>
          (case restore_images rd imgs of
             None \<Rightarrow> None
           | Some (blobs, uris) \<Rightarrow> Some (blob_of_stored img # blobs, JStr uri # uris)))"

text \<open>The loop over the stored profiles, after \<^verbatim>\<open>profiles.clear()\<close>: \<open>Inl\<close> carries the map as
  it is when a read rejects.\<close>

fun restore_profiles ::
  "(Blob \<Rightarrow> string option) \<Rightarrow> StoredProfile list \<Rightarrow> (string \<times> Profile) list
    \<Rightarrow> (string \<times> Profile) list + (string \<times> Profile) list" where
  "restore_profiles rd [] ps = Inr ps"
| "restore_profiles rd (stored # rest) ps =
     (case restore_images rd (sp_images stored) of
        None \<Rightarrow> Inl ps
      | Some (blobs, uris) \<Rightarrow>
          restore_profiles rd rest
            (AList.update (sp_id stored)
               \<lparr>pid = sp_id stored, pname = sp_name stored, images = blobs,
                dataUris = uris, currentIndex = sp_currentIndex stored\<rparr> ps))"

text \<open>The \<^verbatim>\<open>catch\<close> clause of the loader.\<close>

definition load_failed :: "state \<Rightarrow> state" where
  "load_failed s =
     (new_profile DEFAULT_PROFILE_ID empty_default s)\<lparr>activeProfileId := DEFAULT_PROFILE_ID\<rparr>"

definition ds_del :: "string \<Rightarrow> state \<Rightarrow> state" where
  "ds_del k s = s\<lparr>dataStore := (dataStore s)(k := None)\<rparr>"

definition loadProfilesFromDataStore :: "(Blob \<Rightarrow> string option) \<Rightarrow> state \<Rightarrow> state" where
  "loadProfilesFromDataStore rd s =
     (case (case dataStore s DATASTORE_KEY_PROFILES of
              Some (VProfiles d) \<Rightarrow> (if spd_profiles d \<noteq> [] then Some d else None)
            | _ \<Rightarrow> None) of
        Some d \<Rightarrow>
          (case restore_profiles rd (spd_profiles d) [] of
             Inl ps \<Rightarrow> load_failed (s\<lparr>profiles := ps, cacheRef := None\<rparr>)
           | Inr ps \<Rightarrow>
               syncCacheWithActiveProfile
                 (s\<lparr>profiles := ps, cacheRef := None,
                    activeProfileId :=
                      (if spd_activeProfileId d = [] then DEFAULT_PROFILE_ID
                       else spd_activeProfileId d)\<rparr>))
      | None \<Rightarrow>
          (case (case dataStore s DATASTORE_KEY_SLIDESHOW of
                   Some (VSlideshow oldData) \<Rightarrow>
                     (if ss_images oldData \<noteq> [] then Some oldData else None)
                 | _ \<Rightarrow> None) of
             Some oldData \<Rightarrow>
               (case restore_images rd (ss_images oldData) of
                  None \<Rightarrow> load_failed s
                | Some (blobs, uris) \<Rightarrow>
                    let oldIndex = loadSlideIndex s;
                        s1 = (new_profile DEFAULT_PROFILE_ID
                                \<lparr>pid = DEFAULT_PROFILE_ID, pname = ''Default'', images = blobs,
                                 dataUris = uris, currentIndex = oldIndex\<rparr> s)
                               \<lparr>activeProfileId := DEFAULT_PROFILE_ID\<rparr>;
                        s2 = saveProfilesToDataStore s1;
                        s3 = ds_del DATASTORE_KEY
                               (ds_del DATASTORE_KEY_INDEX (ds_del DATASTORE_KEY_SLIDESHOW s2))
                    in syncCacheWithActiveProfile s3)
           | None \<Rightarrow>
               syncCacheWithActiveProfile
                 ((new_profile DEFAULT_PROFILE_ID empty_default s)
                    \<lparr>activeProfileId := DEFAULT_PROFILE_ID\<rparr>)))"

text \<open>The plugin's \<^verbatim>\<open>start()\<close>.\<close>

definition start :: "(Blob \<Rightarrow> string option) \<Rightarrow> state \<Rightarrow> state" where
  "start rd s = syncCacheWithActiveProfile (loadProfilesFromDataStore rd s)"

subsection \<open>Saving the gallery's settings\<close>

definition handleSave :: "int \<Rightarrow> bool \<Rightarrow> bool \<Rightarrow> bool \<Rightarrow> state \<Rightarrow> state" where
  "handleSave pendingIndex pluginEnabled slideshowOn randomOn s =
     (let s1 = s\<lparr>replaceEnabled := pluginEnabled, slideshowEnabled := slideshowOn,
                 slideshowRandom := randomOn\<rparr>;
          s2 = (if pendingIndex \<noteq> currentSlideIndex s1
                then s1\<lparr>manualSlideChange := True\<rparr> else s1);
          s3 = s2\<lparr>currentSlideIndex := pendingIndex\<rparr>
      in saveSlideIndex pendingIndex s3)"

subsection \<open>Liveness tracker\<close>

text \<open>The body of the one-second \<^verbatim>\<open>setInterval\<close> callback, as far as it touches module state.\<close>

definition timerInterval :: "int \<Rightarrow> state \<Rightarrow> state" where
  "timerInterval now s =
     (if isStreamActive s \<and> lastSlideChangeTime s > 0 \<and> now - lastSlideChangeTime s > 420000
      then s\<lparr>isStreamActive := False\<rparr> else s)"

subsection \<open>Slide selector\<close>

text \<open>
  The \<^verbatim>\<open>do { nextIndex = Math.floor(Math.random() * n) } while (nextIndex === cur && n > 1)\<close>
  loop over the draws \<open>Math.random()\<close> produces; \<open>None\<close> when the draws run out inside the loop.
\<close>

fun random_index :: "real list \<Rightarrow> int \<Rightarrow> nat \<Rightarrow> int option" where
  "random_index [] cur n = None"
| "random_index (r # rs) cur n =
     (let nextIndex = \<lfloor>r * real n\<rfloor>
      in if nextIndex = cur \<and> n > 1 then random_index rs cur n else Some nextIndex)"

text \<open>
  The trigger. The result is the returned thumbnail and the new state. The call
  \<^verbatim>\<open>saveSlideIndex(nextIndex)\<close> is not awaited: its synchronous part assigns \<open>nextIndex\<close> to
  fields that already hold it, so the returned element is read from the cache as it is before
  the save, and the save is applied to the state the call leaves.
\<close>

definition getCustomThumbnail ::
  "int \<Rightarrow> real list \<Rightarrow> string \<Rightarrow> state \<Rightarrow> (jsstr \<times> state) option" where
  "getCustomThumbnail now rnd originalThumbnail s0 =
     (let s = s0\<lparr>isStreamActive := True\<rparr>;
          uris = cachedDataUris s
      in
      if \<not> replaceEnabled s \<or> length uris = 0 then
        Some (JStr originalThumbnail, s\<lparr>actualStreamImageUri := JNull\<rparr>)
      else if length uris = 1 \<or> \<not> slideshowEnabled s then
        (let idx = (if currentSlideIndex s < int (length uris) then currentSlideIndex s else 0)
         in Some (js_get uris idx,
                  s\<lparr>lastSlideChangeTime := now, actualStreamImageUri := js_get uris idx\<rparr>))
      else if manualSlideChange s then
        Some (js_get uris (currentSlideIndex s),
              s\<lparr>manualSlideChange := False, lastSlideChangeTime := now,
                actualStreamImageUri := js_get uris (currentSlideIndex s)\<rparr>)
      else
        (case (if slideshowRandom s
               then random_index rnd (currentSlideIndex s) (length uris)
               else Some ((currentSlideIndex s + 1) smod int (length uris))) of
           None \<Rightarrow> None
         | Some nextIndex \<Rightarrow>
             Some (js_get uris nextIndex,
                   saveSlideIndex nextIndex
                     (s\<lparr>currentSlideIndex := nextIndex, lastSlideChangeTime := now,
                        actualStreamImageUri := js_get uris nextIndex\<rparr>))))"

subsection \<open>The module's initial state\<close>

text \<open>The values the module-level variables and the settings start with, on an empty
  \<^verbatim>\<open>DataStore\<close>.\<close>

definition initial_state :: state where
  "initial_state =
     \<lparr>profiles = [], activeProfileId = DEFAULT_PROFILE_ID, cachedImages = [],
      cachedDataUris = [], currentSlideIndex = 0, lastSlideChangeTime = 0,
      isStreamActive = False, manualSlideChange = False, actualStreamImageUri = JNull,
      replaceEnabled = True, slideshowEnabled = False, slideshowRandom = False,
      dataStore = Map.empty, cacheRef = None\<rparr>"

subsection \<open>Notions used by the properties\<close>

text \<open>The profile \<^verbatim>\<open>getActiveProfile()\<close> returns in a state.\<close>

definition active_profile :: "state \<Rightarrow> Profile" where
  "active_profile s = snd (fst (getActiveProfile s))"

text \<open>The invariant of a profile: with at least one image, \<open>0 \<le> currentIndex < len(images)\<close>.\<close>

definition index_in_range :: "Profile \<Rightarrow> bool" where
  "index_in_range p =
     (images p = [] \<or> (0 \<le> currentIndex p \<and> currentIndex p < int (length (images p))))"

text \<open>
  A call is a no-op: the active profile's lists and index, the cache and the
  \<^verbatim>\<open>DataStore\<close> are as before, and so is the whole state when the active identifier names
  a profile (otherwise \<^verbatim>\<open>getActiveProfile\<close> has stored the empty default profile).
\<close>

definition unchanged :: "state \<Rightarrow> state \<Rightarrow> bool" where
  "unchanged s s' =
     (images (active_profile s') = images (active_profile s) \<and>
      dataUris (active_profile s') = dataUris (active_profile s) \<and>
      currentIndex (active_profile s') = currentIndex (active_profile s) \<and>
      cachedImages s' = cachedImages s \<and>
      cachedDataUris s' = cachedDataUris s \<and>
      currentSlideIndex s' = currentSlideIndex s \<and>
      dataStore s' = dataStore s \<and>
      (if map_of (profiles s) (activeProfileId s) = None then True else s' = s))"

text \<open>Sample data: blobs, a reader that never rejects, and the state of a session whose
  default profile holds the given images.\<close>

definition sample_digit :: "8 word \<Rightarrow> char" where
  "sample_digit w =
     (if w = 1 then CHR ''1'' else if w = 2 then CHR ''2'' else if w = 3 then CHR ''3''
      else CHR ''0'')"

definition sample_uri :: "Blob \<Rightarrow> string" where
  "sample_uri blob = ''data:'' @ btype blob @ '';base64,'' @ map sample_digit (bdata blob)"

definition sample_rd :: "Blob \<Rightarrow> string option" where
  "sample_rd blob = Some (sample_uri blob)"

definition sample_blob :: "nat \<Rightarrow> Blob" where
  "sample_blob n = \<lparr>btype = ''image/jpeg'', bdata = [of_nat n]\<rparr>"

definition loaded_state :: "Blob list \<Rightarrow> int \<Rightarrow> state" where
  "loaded_state imgs idx =
     syncCacheWithActiveProfile
       (initial_state\<lparr>profiles :=
          [(DEFAULT_PROFILE_ID,
            \<lparr>pid = DEFAULT_PROFILE_ID, pname = ''Default'', images = imgs,
             dataUris = map (JStr \<circ> sample_uri) imgs, currentIndex = idx\<rparr>)]\<rparr>)"

text \<open>The cache holds the arrays of the active profile, as
  \<^verbatim>\<open>syncCacheWithActiveProfile\<close> leaves it.\<close>

definition cache_synced :: "state \<Rightarrow> bool" where
  "cache_synced s =
     (case map_of (profiles s) (activeProfileId s) of
        None \<Rightarrow> False
      | Some p \<Rightarrow> cachedImages s = images p \<and> cachedDataUris s = dataUris p)"

text \<open>The conditions under which the trigger passes its first two branches: replacement
  and slideshow are enabled and there are at least two images.\<close>

definition advancing :: "state \<Rightarrow> bool" where
  "advancing s = (replaceEnabled s \<and> slideshowEnabled s \<and> 2 \<le> length (cachedDataUris s))"




text \<open>Sample uploads: a PNG file of 1000 bytes, and an image pipeline that never rejects.\<close>

definition sample_proc :: "File \<Rightarrow> Blob option" where
  "sample_proc file = Some \<lparr>btype = ''image/jpeg'', bdata = fdata file\<rparr>"

definition sample_file :: "nat \<Rightarrow> File" where
  "sample_file n = \<lparr>ftype = ''image/png'', fsize = 1000, fdata = [of_nat n]\<rparr>"

text \<open>
  A session of the plugin: \<^verbatim>\<open>start()\<close> on a given \<^verbatim>\<open>DataStore\<close>, with the settings at their
  defaults and a reader that never rejects.
\<close>

definition session :: "(string \<rightharpoonup> dsval) \<Rightarrow> state" where
  "session store = start sample_rd (initial_state\<lparr>dataStore := store\<rparr>)"

text \<open>A \<^verbatim>\<open>DataStore\<close> as the plugin writes it: the default profile alone, with the given
  images and slide index.\<close>

definition sample_stored :: "int \<Rightarrow> StoredImageData" where
  "sample_stored n = \<lparr>si_type = ''image/jpeg'', si_data = [n]\<rparr>"

definition profile_store_of :: "StoredImageData list \<Rightarrow> int \<Rightarrow> string \<rightharpoonup> dsval" where
  "profile_store_of imgs idx =
     [DATASTORE_KEY_PROFILES \<mapsto>
        VProfiles \<lparr>spd_profiles =
                     [\<lparr>sp_id = DEFAULT_PROFILE_ID, sp_name = ''Default'',
                       sp_images = imgs, sp_currentIndex = idx\<rparr>],
                   spd_activeProfileId = DEFAULT_PROFILE_ID\<rparr>]"

text \<open>
  Uploads to a profile of 49 images. In \<open>overlapping_uploads\<close> there are two drops of one file
  each, the second drop comes while the first handler waits for \<^verbatim>\<open>processImage\<close>, and the
  two handlers then resume one after the other. In \<open>successive_uploads\<close> the second drop comes
  after the first handler has finished. In \<open>lone_upload\<close> there is one drop of two files.
\<close>

definition nearly_full_session :: state where
  "nearly_full_session = session (profile_store_of (replicate 49 (sample_stored 1)) 0)"

definition overlapping_uploads :: "(ui_error option + upload) \<times> state" where
  "overlapping_uploads =
     (case handleDroppedFiles DEFAULT_PROFILE_ID [sample_file 2] nearly_full_session of
        (Inr u1, s1) \<Rightarrow>
          (case handleDroppedFiles DEFAULT_PROFILE_ID [sample_file 3] s1 of
             (Inr u2, s2) \<Rightarrow>
               handleDroppedFiles_resume sample_rd sample_proc u2
                 (snd (handleDroppedFiles_resume sample_rd sample_proc u1 s2))
           | (Inl e, s2) \<Rightarrow> (Inl e, s2))
      | (Inl e, s1) \<Rightarrow> (Inl e, s1))"

definition successive_uploads :: "(ui_error option + upload) \<times> state" where
  "successive_uploads =
     (case handleDroppedFiles DEFAULT_PROFILE_ID [sample_file 2] nearly_full_session of
        (Inr u1, s1) \<Rightarrow>
          handleDroppedFiles DEFAULT_PROFILE_ID [sample_file 3]
            (snd (handleDroppedFiles_resume sample_rd sample_proc u1 s1))
      | (Inl e, s1) \<Rightarrow> (Inl e, s1))"

definition lone_upload :: "(ui_error option + upload) \<times> state" where
  "lone_upload =
     (case handleDroppedFiles DEFAULT_PROFILE_ID [sample_file 2, sample_file 3]
             nearly_full_session of
        (Inr u, s1) \<Rightarrow> handleDroppedFiles_resume sample_rd sample_proc u s1
      | (Inl e, s1) \<Rightarrow> (Inl e, s1))"

text \<open>An invocation of the trigger by the host at a given time, in a session that draws no
  random numbers; the state it leaves.\<close>

definition triggered :: "int \<Rightarrow> state \<Rightarrow> state" where
  "triggered now s =
     (case getCustomThumbnail now [] ''live'' s of Some (shown, s') \<Rightarrow> s' | None \<Rightarrow> s)"

text \<open>
  Two streams. In \<open>unstamped_stream\<close> the plugin is freshly installed (no image) and the host
  has invoked the trigger once, at 300000 ms. In \<open>stale_stamp_stream\<close> the profile holds one
  image, the trigger has shown it at 300000 ms, the gallery was then saved with replacement
  switched off, and the host has invoked the trigger again at 780000 ms.
\<close>

definition unstamped_stream :: state where
  "unstamped_stream = triggered 300000 (session Map.empty)"

definition stale_stamp_stream :: state where
  "stale_stamp_stream =
     triggered 780000
       (handleSave 0 False False False
          (triggered 300000 (session (profile_store_of [sample_stored 1] 0))))"

text \<open>
  A \<^verbatim>\<open>DataStore\<close> as the plugin writes it with two profiles, the second one active with its
  slide 1 selected; and the session in which the gallery is opened, the images of the active
  profile are all deleted (\<^verbatim>\<open>handleClearAll\<close>), the emptied profile is deleted
  (\<^verbatim>\<open>handleDeleteProfile\<close>: \<^verbatim>\<open>deleteProfile\<close>, \<^verbatim>\<open>saveProfilesToDataStore\<close>, and
  \<^verbatim>\<open>handleProfileSwitch\<close> to the default profile, which calls \<^verbatim>\<open>setActiveProfile\<close>), and the
  gallery is closed with nothing saved.
\<close>

definition two_profile_store :: "string \<rightharpoonup> dsval" where
  "two_profile_store =
     [DATASTORE_KEY_PROFILES \<mapsto>
        VProfiles \<lparr>spd_profiles =
                     [\<lparr>sp_id = DEFAULT_PROFILE_ID, sp_name = ''Default'',
                       sp_images = [sample_stored 1, sample_stored 2], sp_currentIndex = 0\<rparr>,
                      \<lparr>sp_id = ''profile_1'', sp_name = ''Second'',
                       sp_images = [sample_stored 3, sample_stored 3], sp_currentIndex = 1\<rparr>],
                   spd_activeProfileId = ''profile_1''\<rparr>]"

definition abandoned_gallery :: state where
  "abandoned_gallery =
     (let s0 = session two_profile_store;
          init = initialSettingsRef s0;
          s1 = deleteAllImages s0;
          s2 = saveProfilesToDataStore (snd (deleteProfile ''profile_1'' s1));
          s3 = snd (setActiveProfile DEFAULT_PROFILE_ID s2)
      in close_unsaved init s3)"

text \<open>A \<^verbatim>\<open>DataStore\<close> left by the single-list format, with the given images and slide index;
  the one with two images and slide 1 selected; and a reader that rejects every blob.\<close>

definition legacy_store_of :: "StoredImageData list \<Rightarrow> int \<Rightarrow> string \<rightharpoonup> dsval" where
  "legacy_store_of imgs idx =
     [DATASTORE_KEY_SLIDESHOW \<mapsto> VSlideshow \<lparr>ss_images = imgs\<rparr>,
      DATASTORE_KEY_INDEX \<mapsto> VNumber idx]"

definition legacy_store :: "string \<rightharpoonup> dsval" where
  "legacy_store = legacy_store_of [sample_stored 1, sample_stored 2] 1"

definition failing_rd :: "Blob \<Rightarrow> string option" where
  "failing_rd blob = None"

section \<open>Properties\<close>

subsection \<open>The trigger when nothing is to be shown\<close>

text \<open>
  C8. Whatever the original thumbnail is, when replacement is disabled or the cache of the
  active profile's data URLs is empty, the trigger returns the original thumbnail; the state
  it leaves differs from the one it found only in that the stream is marked active and the
  pointer to the image on stream is null. The random draws play no part, so the call always
  returns.
\<close>

theorem getCustomThumbnail_passthrough:
  "\<not> replaceEnabled s \<or> cachedDataUris s = [] \<Longrightarrow>
   getCustomThumbnail now rnd originalThumbnail s =
     Some (JStr originalThumbnail, s\<lparr>isStreamActive := True, actualStreamImageUri := JNull\<rparr>)"
  by (auto simp: getCustomThumbnail_def Let_def)

theorem getCustomThumbnail_passthrough_witness:
  "\<not> replaceEnabled ((loaded_state [] 0)\<lparr>replaceEnabled := False\<rparr>)
   \<and> images (active_profile ((loaded_state [] 0)\<lparr>replaceEnabled := False\<rparr>)) = []
   \<and> cachedDataUris ((loaded_state [] 0)\<lparr>replaceEnabled := False\<rparr>) = []
   \<and> actualStreamImageUri ((loaded_state [] 0)\<lparr>replaceEnabled := False\<rparr>) = JNull
   \<and> getCustomThumbnail 1000 [] ''live'' ((loaded_state [] 0)\<lparr>replaceEnabled := False\<rparr>) =
       Some (JStr ''live'',
             (loaded_state [] 0)\<lparr>replaceEnabled := False, isStreamActive := True,
                                  actualStreamImageUri := JNull\<rparr>)"
  using getCustomThumbnail_passthrough
          [of "(loaded_state [] 0)\<lparr>replaceEnabled := False\<rparr>" 1000 "[]" "''live''"]
  by (simp add: loaded_state_def initial_state_def syncCacheWithActiveProfile_def
      getActiveProfile_def active_profile_def)

subsection \<open>The active profile\<close>

lemma new_profile_fields:
  "profiles (new_profile k p s) = AList.update k p (profiles s)"
  "activeProfileId (new_profile k p s) = activeProfileId s"
  "cachedImages (new_profile k p s) = cachedImages s"
  "cachedDataUris (new_profile k p s) = cachedDataUris s"
  "currentSlideIndex (new_profile k p s) = currentSlideIndex s"
  "lastSlideChangeTime (new_profile k p s) = lastSlideChangeTime s"
  "isStreamActive (new_profile k p s) = isStreamActive s"
  "manualSlideChange (new_profile k p s) = manualSlideChange s"
  "actualStreamImageUri (new_profile k p s) = actualStreamImageUri s"
  "replaceEnabled (new_profile k p s) = replaceEnabled s"
  "slideshowEnabled (new_profile k p s) = slideshowEnabled s"
  "slideshowRandom (new_profile k p s) = slideshowRandom s"
  "dataStore (new_profile k p s) = dataStore s"
  by (simp_all add: new_profile_def)

lemma put_profile_fields:
  "profiles (put_profile k p s) = AList.update k p (profiles s)"
  "activeProfileId (put_profile k p s) = activeProfileId s"
  "cachedImages (put_profile k p s) = (if cacheRef s = Some k then images p else cachedImages s)"
  "cachedDataUris (put_profile k p s)
     = (if cacheRef s = Some k then dataUris p else cachedDataUris s)"
  "currentSlideIndex (put_profile k p s) = currentSlideIndex s"
  "lastSlideChangeTime (put_profile k p s) = lastSlideChangeTime s"
  "isStreamActive (put_profile k p s) = isStreamActive s"
  "manualSlideChange (put_profile k p s) = manualSlideChange s"
  "actualStreamImageUri (put_profile k p s) = actualStreamImageUri s"
  "replaceEnabled (put_profile k p s) = replaceEnabled s"
  "slideshowEnabled (put_profile k p s) = slideshowEnabled s"
  "slideshowRandom (put_profile k p s) = slideshowRandom s"
  "dataStore (put_profile k p s) = dataStore s"
  "cacheRef (put_profile k p s) = cacheRef s"
  by (simp_all add: put_profile_def Let_def)

lemma getActiveProfile_present:
  "map_of (profiles s) (activeProfileId s) = Some p \<Longrightarrow>
   getActiveProfile s = ((activeProfileId s, p), s)"
  by (simp add: getActiveProfile_def)

lemma getActiveProfile_absent:
  "map_of (profiles s) (activeProfileId s) = None \<Longrightarrow>
   getActiveProfile s =
     ((DEFAULT_PROFILE_ID, empty_default), new_profile DEFAULT_PROFILE_ID empty_default s)"
  by (simp add: getActiveProfile_def)

lemma active_profile_present:
  "map_of (profiles s) (activeProfileId s) = Some p \<Longrightarrow> active_profile s = p"
  by (simp add: active_profile_def getActiveProfile_present)

lemma active_profile_absent:
  "map_of (profiles s) (activeProfileId s) = None \<Longrightarrow> active_profile s = empty_default"
  by (simp add: active_profile_def getActiveProfile_absent)

lemma active_profile_after_get:
  "active_profile (snd (getActiveProfile s)) = active_profile s"
  by (cases "map_of (profiles s) (activeProfileId s)")
     (auto simp: active_profile_def getActiveProfile_def new_profile_fields update_conv')

lemma active_profile_sync:
  "active_profile (syncCacheWithActiveProfile s) = active_profile s"
  by (cases "map_of (profiles s) (activeProfileId s)")
     (auto simp: active_profile_def syncCacheWithActiveProfile_def getActiveProfile_def
        new_profile_fields update_conv')

lemma active_profile_save:
  "active_profile (saveProfilesToDataStore s) = active_profile s"
  by (cases "map_of (profiles s) (activeProfileId s)")
     (auto simp: active_profile_def saveProfilesToDataStore_def syncCacheWithActiveProfile_def
        getActiveProfile_def new_profile_fields update_conv')

lemma active_profile_put:
  "active_profile (put_profile (activeProfileId s) p s) = p"
  by (simp add: active_profile_def put_profile_fields getActiveProfile_def update_conv')

lemma deleteImageAtIndex_present:
  assumes "map_of (profiles s) (activeProfileId s) = Some p"
  shows "active_profile (deleteImageAtIndex index s) =
     (if index < 0 \<or> index \<ge> int (length (images p)) then p
      else let p1 = p\<lparr>images := splice1 (images p) index,
                        dataUris := splice1 (dataUris p) index\<rparr>
           in if currentIndex p1 \<ge> int (length (images p1)) then p1\<lparr>currentIndex := 0\<rparr>
              else p1)"
  using assms
  by (simp add: deleteImageAtIndex_def getActiveProfile_present Let_def active_profile_save
      active_profile_sync active_profile_put active_profile_present)

lemma deleteImageAtIndex_absent:
  assumes "map_of (profiles s) (activeProfileId s) = None"
  shows "deleteImageAtIndex index s = snd (getActiveProfile s)"
  using assms
  by (auto simp add: deleteImageAtIndex_def getActiveProfile_absent empty_default_def)

lemma moveImage_present:
  assumes "map_of (profiles s) (activeProfileId s) = Some p"
  shows "active_profile (moveImage fromIndex toIndex s) =
     (if fromIndex = toIndex \<or> fromIndex < 0 \<or> fromIndex \<ge> int (length (images p))
         \<or> toIndex < 0 \<or> toIndex \<ge> int (length (images p)) then p
      else let p1 = p\<lparr>
                  images := (images p)[nat fromIndex := images p ! nat toIndex,
                                       nat toIndex := images p ! nat fromIndex],
                  dataUris := js_set (js_set (dataUris p) fromIndex (js_get (dataUris p) toIndex))
                                     toIndex (js_get (dataUris p) fromIndex)\<rparr>
           in if currentIndex p1 = fromIndex then p1\<lparr>currentIndex := toIndex\<rparr>
              else if currentIndex p1 = toIndex then p1\<lparr>currentIndex := fromIndex\<rparr>
              else p1)"
  using assms
  by (simp add: moveImage_def getActiveProfile_present Let_def active_profile_save
      active_profile_sync active_profile_put active_profile_present)

lemma moveImage_absent:
  assumes "map_of (profiles s) (activeProfileId s) = None"
  shows "moveImage fromIndex toIndex s = snd (getActiveProfile s)"
  using assms
  by (auto simp add: moveImage_def getActiveProfile_absent empty_default_def)

lemma length_splice1:
  "0 \<le> i \<Longrightarrow> i < int (length xs) \<Longrightarrow> length (splice1 xs i) = length xs - 1"
  by (auto simp: splice1_def Let_def min_def)

lemma splice1_eq_Nil:
  "0 \<le> i \<Longrightarrow> i < int (length xs) \<Longrightarrow> (splice1 xs i = []) = (length xs = 1)"
  using length_splice1 [of i xs] length_0_conv [of "splice1 xs i"] by fastforce

lemma index_in_range_delete:
  "index_in_range (active_profile s) \<Longrightarrow>
   index_in_range (active_profile (deleteImageAtIndex i s))"
proof (cases "map_of (profiles s) (activeProfileId s)")
  case None
  then show ?thesis
    by (simp add: deleteImageAtIndex_absent active_profile_after_get active_profile_absent
        index_in_range_def empty_default_def)
next
  case (Some p)
  assume "index_in_range (active_profile s)"
  with Some have "index_in_range p" by (simp add: active_profile_present)
  then show ?thesis
    by (auto simp: deleteImageAtIndex_present[OF Some] index_in_range_def Let_def
        length_splice1 splice1_eq_Nil)
qed

lemma index_in_range_delete_valid:
  assumes "0 \<le> currentIndex (active_profile s)"
    and "0 \<le> i" and "i < int (length (images (active_profile s)))"
  shows "index_in_range (active_profile (deleteImageAtIndex i s))"
proof (cases "map_of (profiles s) (activeProfileId s)")
  case None
  then show ?thesis
    by (simp add: deleteImageAtIndex_absent active_profile_after_get active_profile_absent
        index_in_range_def empty_default_def)
next
  case (Some p)
  with assms have "0 \<le> currentIndex p" "0 \<le> i" "i < int (length (images p))"
    by (simp_all add: active_profile_present)
  then show ?thesis
    by (auto simp: deleteImageAtIndex_present[OF Some] index_in_range_def Let_def
        length_splice1 splice1_eq_Nil)
qed

lemma index_in_range_move:
  "index_in_range (active_profile s) \<Longrightarrow>
   index_in_range (active_profile (moveImage f t s))"
proof (cases "map_of (profiles s) (activeProfileId s)")
  case None
  then show ?thesis
    by (simp add: moveImage_absent active_profile_after_get active_profile_absent
        index_in_range_def empty_default_def)
next
  case (Some p)
  assume "index_in_range (active_profile s)"
  with Some have "index_in_range p" by (simp add: active_profile_present)
  then show ?thesis
    by (auto simp: moveImage_present[OF Some] index_in_range_def Let_def)
qed

lemma delete_resets_index:
  assumes "0 \<le> i" and "i < int (length (images (active_profile s)))"
    and "int (length (images (active_profile s))) - 1 \<le> currentIndex (active_profile s)"
  shows "currentIndex (active_profile (deleteImageAtIndex i s)) = 0"
proof (cases "map_of (profiles s) (activeProfileId s)")
  case None
  then show ?thesis using assms by (simp add: active_profile_absent empty_default_def)
next
  case (Some p)
  with assms have "0 \<le> i" "i < int (length (images p))"
     "int (length (images p)) - 1 \<le> currentIndex p"
    by (simp_all add: active_profile_present)
  then show ?thesis
    by (auto simp: deleteImageAtIndex_present[OF Some] Let_def length_splice1)
qed

subsection \<open>Deleting and moving keep the slide index in range\<close>

text \<open>
  C4, as amended. A call of \<^verbatim>\<open>deleteImageAtIndex\<close> followed by a call of \<^verbatim>\<open>moveImage\<close>, with any
  arguments, keeps the active profile's slide index in range: if the profile satisfied
  \<open>0 \<le> currentIndex < len(images)\<close> (for a non-empty image list) before, it does so after,
  for the image count that results. The calls also bring the index into range from any state
  with a non-negative index when the deletion removes an image. A deletion that leaves the
  index at or past the new count resets it to 0; for a list that becomes empty the index is
  therefore 0.
\<close>

theorem delete_then_move_index_in_range:
  "(index_in_range (active_profile s) \<longrightarrow>
      index_in_range (active_profile (moveImage fromIndex toIndex (deleteImageAtIndex index s))))
   \<and> (0 \<le> currentIndex (active_profile s) \<and> 0 \<le> index
        \<and> index < int (length (images (active_profile s))) \<longrightarrow>
      index_in_range (active_profile (moveImage fromIndex toIndex (deleteImageAtIndex index s))))
   \<and> (0 \<le> index \<and> index < int (length (images (active_profile s)))
        \<and> int (length (images (active_profile s))) - 1 \<le> currentIndex (active_profile s) \<longrightarrow>
      currentIndex (active_profile (deleteImageAtIndex index s)) = 0)"
  using index_in_range_delete index_in_range_delete_valid index_in_range_move
    delete_resets_index by blast

subsection \<open>Calls with indices out of range\<close>

lemma unchanged_after_get: "unchanged s (snd (getActiveProfile s))"
proof (cases "map_of (profiles s) (activeProfileId s)")
  case None
  then show ?thesis
    using active_profile_after_get [of s]
    by (simp add: unchanged_def getActiveProfile_absent new_profile_fields)
next
  case (Some p)
  then show ?thesis by (simp add: unchanged_def getActiveProfile_present)
qed

lemma deleteImageAtIndex_out_of_range:
  "index < 0 \<or> int (length (images (active_profile s))) \<le> index \<Longrightarrow>
   deleteImageAtIndex index s = snd (getActiveProfile s)"
  by (auto simp: deleteImageAtIndex_def active_profile_def split: prod.splits)

lemma moveImage_out_of_range:
  "fromIndex = toIndex \<or> fromIndex < 0 \<or> int (length (images (active_profile s))) \<le> fromIndex
     \<or> toIndex < 0 \<or> int (length (images (active_profile s))) \<le> toIndex \<Longrightarrow>
   moveImage fromIndex toIndex s = snd (getActiveProfile s)"
  by (auto simp: moveImage_def active_profile_def split: prod.splits)

text \<open>
  C10. \<^verbatim>\<open>deleteImageAtIndex\<close> with an index outside \<open>[0, count)\<close>, and \<^verbatim>\<open>moveImage\<close> with
  equal indices or with an index outside \<open>[0, count)\<close>, return early: the active profile's
  image list, data URLs and slide index, the cache and the \<^verbatim>\<open>DataStore\<close> are as before,
  and the whole state is unchanged when the active identifier names a profile.
\<close>

theorem out_of_range_is_no_op:
  "(index < 0 \<or> int (length (images (active_profile s))) \<le> index \<longrightarrow>
      unchanged s (deleteImageAtIndex index s))
   \<and> (fromIndex = toIndex \<or> fromIndex < 0
        \<or> int (length (images (active_profile s))) \<le> fromIndex
        \<or> toIndex < 0 \<or> int (length (images (active_profile s))) \<le> toIndex \<longrightarrow>
      unchanged s (moveImage fromIndex toIndex s))"
  using deleteImageAtIndex_out_of_range [of index s]
    moveImage_out_of_range [of fromIndex toIndex s] unchanged_after_get [of s]
  by auto


lemmas eval_defs =
  loaded_state_def initial_state_def sample_blob_def sample_uri_def sample_rd_def
  sample_digit_def
  syncCacheWithActiveProfile_def getActiveProfile_def put_profile_def new_profile_def
  saveProfilesToDataStore_def saveSlideIndex_def stored_of_profile_def stored_of_blob_def
  active_profile_def empty_default_def DEFAULT_PROFILE_ID_def DATASTORE_KEY_PROFILES_def
  js_get_def js_set_def splice1_def Let_def

theorem delete_then_move_index_in_range_witness:
  "index_in_range (active_profile (loaded_state [sample_blob 1, sample_blob 2, sample_blob 3] 2))
   \<and> 0 \<le> currentIndex (active_profile (loaded_state [sample_blob 1, sample_blob 2, sample_blob 3] 2))
   \<and> (0::int) < int (length (images (active_profile (loaded_state [sample_blob 1, sample_blob 2, sample_blob 3] 2))))
   \<and> int (length (images (active_profile (loaded_state [sample_blob 1, sample_blob 2, sample_blob 3] 2)))) - 1
        \<le> currentIndex (active_profile (loaded_state [sample_blob 1, sample_blob 2, sample_blob 3] 2))
   \<and> index_in_range (active_profile (moveImage 0 1 (deleteImageAtIndex 0
         (loaded_state [sample_blob 1, sample_blob 2, sample_blob 3] 2))))
   \<and> currentIndex (active_profile (deleteImageAtIndex 0
         (loaded_state [sample_blob 1, sample_blob 2, sample_blob 3] 2))) = 0"
proof -
  let ?s = "loaded_state [sample_blob 1, sample_blob 2, sample_blob 3] 2"
  have h1: "index_in_range (active_profile ?s)"
    by (simp add: index_in_range_def eval_defs)
  have h2: "0 \<le> currentIndex (active_profile ?s)"
    by (simp add: eval_defs)
  have h3: "(0::int) < int (length (images (active_profile ?s)))"
    by (simp add: eval_defs)
  have h4: "int (length (images (active_profile ?s))) - 1 \<le> currentIndex (active_profile ?s)"
    by (simp add: eval_defs)
  from h1 h2 h3 h4 delete_then_move_index_in_range [of ?s 0 1 0]
  show ?thesis by blast
qed

theorem out_of_range_is_no_op_witness:
  "int (length (images (active_profile (loaded_state [sample_blob 1, sample_blob 2] 1)))) \<le> 2
   \<and> unchanged (loaded_state [sample_blob 1, sample_blob 2] 1)
        (deleteImageAtIndex 2 (loaded_state [sample_blob 1, sample_blob 2] 1))
   \<and> unchanged (loaded_state [sample_blob 1, sample_blob 2] 1)
        (moveImage 1 2 (loaded_state [sample_blob 1, sample_blob 2] 1))
   \<and> deleteImageAtIndex 2 (loaded_state [sample_blob 1, sample_blob 2] 1)
        = loaded_state [sample_blob 1, sample_blob 2] 1
   \<and> moveImage 1 1 (loaded_state [sample_blob 1, sample_blob 2] 1)
        = loaded_state [sample_blob 1, sample_blob 2] 1"
proof -
  let ?s = "loaded_state [sample_blob 1, sample_blob 2] 1"
  have h: "int (length (images (active_profile ?s))) \<le> 2"
    by (simp add: eval_defs)
  have p: "map_of (profiles ?s) (activeProfileId ?s) \<noteq> None"
    by (simp add: eval_defs)
  from h out_of_range_is_no_op [of 2 ?s 1 2] out_of_range_is_no_op [of 2 ?s 1 1] p
  show ?thesis by (simp add: unchanged_def)
qed

subsection \<open>Explicit results of saving and loading\<close>

lemma sync_explicit:
  assumes "map_of (profiles s) (activeProfileId s) = Some p"
  shows "syncCacheWithActiveProfile s =
     s\<lparr>cachedImages := images p, cachedDataUris := dataUris p,
       currentSlideIndex := currentIndex p, cacheRef := Some (activeProfileId s)\<rparr>"
  using assms by (simp add: syncCacheWithActiveProfile_def getActiveProfile_def)

lemma save_explicit:
  assumes "map_of (profiles s) (activeProfileId s) = Some p"
  shows "saveProfilesToDataStore s =
     s\<lparr>dataStore := (dataStore s)(DATASTORE_KEY_PROFILES \<mapsto>
          VProfiles \<lparr>spd_profiles = map (stored_of_profile \<circ> snd) (profiles s),
                     spd_activeProfileId = activeProfileId s\<rparr>),
       cachedImages := images p, cachedDataUris := dataUris p,
       currentSlideIndex := currentIndex p, cacheRef := Some (activeProfileId s)\<rparr>"
  using assms
  by (simp add: saveProfilesToDataStore_def syncCacheWithActiveProfile_def getActiveProfile_def)

lemma put_profile_present:
  "map_of (profiles (put_profile k p s)) k = Some p"
  "activeProfileId (put_profile k p s) = activeProfileId s"
  by (simp_all add: put_profile_fields update_conv')

lemma sync_present:
  assumes "map_of (profiles s) (activeProfileId s) = Some p"
  shows "profiles (syncCacheWithActiveProfile s) = profiles s"
    and "activeProfileId (syncCacheWithActiveProfile s) = activeProfileId s"
  using assms by (simp_all add: sync_explicit)

lemma save_present:
  assumes "map_of (profiles s) (activeProfileId s) = Some p"
  shows "profiles (saveProfilesToDataStore s) = profiles s"
    and "activeProfileId (saveProfilesToDataStore s) = activeProfileId s"
  using assms by (simp_all add: save_explicit)

lemma deleteImageAtIndex_keeps_active:
  assumes "map_of (profiles s) (activeProfileId s) = Some p"
  shows "map_of (profiles (deleteImageAtIndex i s)) (activeProfileId (deleteImageAtIndex i s))
         = Some (active_profile (deleteImageAtIndex i s))"
proof -
  let ?k = "activeProfileId s"
  have "map_of (profiles (deleteImageAtIndex i s)) (activeProfileId (deleteImageAtIndex i s))
        \<noteq> None"
  proof (cases "i < 0 \<or> i \<ge> int (length (images p))")
    case True
    then show ?thesis
      using assms by (auto simp: deleteImageAtIndex_def getActiveProfile_present)
  next
    case False
    define p2 where "p2 =
      (let p1 = p\<lparr>images := splice1 (images p) i, dataUris := splice1 (dataUris p) i\<rparr>
       in if currentIndex p1 \<ge> int (length (images p1)) then p1\<lparr>currentIndex := 0\<rparr> else p1)"
    have a: "map_of (profiles (put_profile ?k p2 s)) (activeProfileId (put_profile ?k p2 s))
             = Some p2"
      by (simp add: put_profile_present)
    have b: "map_of (profiles (syncCacheWithActiveProfile (put_profile ?k p2 s)))
               (activeProfileId (syncCacheWithActiveProfile (put_profile ?k p2 s))) = Some p2"
      using a by (simp add: sync_present [OF a])
    have "deleteImageAtIndex i s
          = saveProfilesToDataStore (syncCacheWithActiveProfile (put_profile ?k p2 s))"
      using False assms
      by (simp add: deleteImageAtIndex_def getActiveProfile_present p2_def Let_def)
    then show ?thesis using b by (simp add: save_present [OF b])
  qed
  then show ?thesis by (auto simp: active_profile_present)
qed

lemma restore_images_success:
  "\<forall>img \<in> set imgs. rd (blob_of_stored img) \<noteq> None \<Longrightarrow>
   restore_images rd imgs =
     Some (map blob_of_stored imgs, map (\<lambda>img. JStr (the (rd (blob_of_stored img)))) imgs)"
  by (induction imgs) auto

lemma restore_images_rejected:
  "rd (blob_of_stored img) = None \<Longrightarrow> img \<in> set imgs \<Longrightarrow> restore_images rd imgs = None"
  by (induction imgs) (auto split: option.splits)

lemma keys_distinct:
  "DATASTORE_KEY_PROFILES \<noteq> DATASTORE_KEY_SLIDESHOW"
  "DATASTORE_KEY_PROFILES \<noteq> DATASTORE_KEY_INDEX"
  "DATASTORE_KEY_PROFILES \<noteq> DATASTORE_KEY"
  "DATASTORE_KEY_SLIDESHOW \<noteq> DATASTORE_KEY_INDEX"
  "DATASTORE_KEY_SLIDESHOW \<noteq> DATASTORE_KEY"
  "DATASTORE_KEY_INDEX \<noteq> DATASTORE_KEY"
  by (simp_all add: DATASTORE_KEY_PROFILES_def DATASTORE_KEY_SLIDESHOW_def
      DATASTORE_KEY_INDEX_def DATASTORE_KEY_def)

lemma load_migrates:
  assumes "dataStore s DATASTORE_KEY_PROFILES = None"
    and "dataStore s DATASTORE_KEY_SLIDESHOW = Some (VSlideshow oldData)"
    and "ss_images oldData \<noteq> []"
    and "\<forall>img \<in> set (ss_images oldData). rd (blob_of_stored img) \<noteq> None"
  shows "loadProfilesFromDataStore rd s =
     s\<lparr>profiles := AList.update DEFAULT_PROFILE_ID
            \<lparr>pid = DEFAULT_PROFILE_ID, pname = ''Default'',
             images = map blob_of_stored (ss_images oldData),
             dataUris = map (\<lambda>img. JStr (the (rd (blob_of_stored img)))) (ss_images oldData),
             currentIndex = loadSlideIndex s\<rparr> (profiles s),
       activeProfileId := DEFAULT_PROFILE_ID,
       cachedImages := map blob_of_stored (ss_images oldData),
       cachedDataUris := map (\<lambda>img. JStr (the (rd (blob_of_stored img)))) (ss_images oldData),
       currentSlideIndex := loadSlideIndex s,
       dataStore := (dataStore s)
         (DATASTORE_KEY_PROFILES \<mapsto>
            VProfiles \<lparr>spd_profiles = map (stored_of_profile \<circ> snd)
               (AList.update DEFAULT_PROFILE_ID
                  \<lparr>pid = DEFAULT_PROFILE_ID, pname = ''Default'',
                   images = map blob_of_stored (ss_images oldData),
                   dataUris = map (\<lambda>img. JStr (the (rd (blob_of_stored img))))
                                (ss_images oldData),
                   currentIndex = loadSlideIndex s\<rparr> (profiles s)),
              spd_activeProfileId = DEFAULT_PROFILE_ID\<rparr>,
          DATASTORE_KEY_SLIDESHOW := None, DATASTORE_KEY_INDEX := None,
          DATASTORE_KEY := None),
       cacheRef := Some DEFAULT_PROFILE_ID\<rparr>"
  using assms
  by (simp add: loadProfilesFromDataStore_def restore_images_success Let_def
      saveProfilesToDataStore_def syncCacheWithActiveProfile_def getActiveProfile_def
      new_profile_def ds_del_def update_conv' loadSlideIndex_def)

lemma load_fresh:
  assumes "dataStore s DATASTORE_KEY_PROFILES = None"
    and "dataStore s DATASTORE_KEY_SLIDESHOW = None
         \<or> dataStore s DATASTORE_KEY_SLIDESHOW = Some (VSlideshow \<lparr>ss_images = []\<rparr>)"
  shows "loadProfilesFromDataStore rd s =
     s\<lparr>profiles := AList.update DEFAULT_PROFILE_ID empty_default (profiles s),
       activeProfileId := DEFAULT_PROFILE_ID,
       cachedImages := [], cachedDataUris := [], currentSlideIndex := 0,
       cacheRef := Some DEFAULT_PROFILE_ID\<rparr>"
  using assms
  by (auto simp add: loadProfilesFromDataStore_def syncCacheWithActiveProfile_def
      getActiveProfile_def new_profile_def update_conv' empty_default_def)

lemma load_rejected:
  assumes "dataStore s DATASTORE_KEY_PROFILES = None"
    and "dataStore s DATASTORE_KEY_SLIDESHOW = Some (VSlideshow oldData)"
    and "rd (blob_of_stored img) = None" and "img \<in> set (ss_images oldData)"
  shows "loadProfilesFromDataStore rd s =
     s\<lparr>profiles := AList.update DEFAULT_PROFILE_ID empty_default (profiles s),
       cacheRef := (if cacheRef s = Some DEFAULT_PROFILE_ID then None else cacheRef s),
       activeProfileId := DEFAULT_PROFILE_ID\<rparr>"
proof -
  have "ss_images oldData \<noteq> []" using assms(4) by auto
  moreover have "restore_images rd (ss_images oldData) = None"
    using restore_images_rejected [of rd img "ss_images oldData"] assms(3,4) by simp
  ultimately show ?thesis
    using assms(1,2)
    by (simp add: loadProfilesFromDataStore_def load_failed_def new_profile_def)
qed

lemma load_profiles:
  assumes "dataStore s DATASTORE_KEY_PROFILES = Some (VProfiles d)"
    and "spd_profiles d \<noteq> []"
    and "restore_profiles rd (spd_profiles d) [] = Inr ps"
  shows "loadProfilesFromDataStore rd s =
     syncCacheWithActiveProfile
       (s\<lparr>profiles := ps, cacheRef := None,
          activeProfileId := (if spd_activeProfileId d = [] then DEFAULT_PROFILE_ID
                              else spd_activeProfileId d)\<rparr>)"
  using assms by (simp add: loadProfilesFromDataStore_def)

text \<open>The sessions that start on the sample records.\<close>

lemma session_legacy:
  assumes "imgs \<noteq> []"
  shows "session (legacy_store_of imgs idx) =
     initial_state\<lparr>
       profiles := [(DEFAULT_PROFILE_ID,
            \<lparr>pid = DEFAULT_PROFILE_ID, pname = ''Default'',
             images = map blob_of_stored imgs,
             dataUris = map (\<lambda>img. JStr (sample_uri (blob_of_stored img))) imgs,
             currentIndex = idx\<rparr>)],
       cachedImages := map blob_of_stored imgs,
       cachedDataUris := map (\<lambda>img. JStr (sample_uri (blob_of_stored img))) imgs,
       currentSlideIndex := idx,
       dataStore := [DATASTORE_KEY_PROFILES \<mapsto>
            VProfiles \<lparr>spd_profiles =
                 [\<lparr>sp_id = DEFAULT_PROFILE_ID, sp_name = ''Default'',
                   sp_images = map (stored_of_blob \<circ> blob_of_stored) imgs,
                   sp_currentIndex = idx\<rparr>],
               spd_activeProfileId = DEFAULT_PROFILE_ID\<rparr>],
       cacheRef := Some DEFAULT_PROFILE_ID\<rparr>"
proof -
  let ?s = "initial_state\<lparr>dataStore := legacy_store_of imgs idx\<rparr>"
  have h: "dataStore ?s DATASTORE_KEY_PROFILES = None"
    "dataStore ?s DATASTORE_KEY_SLIDESHOW = Some (VSlideshow \<lparr>ss_images = imgs\<rparr>)"
    "ss_images \<lparr>ss_images = imgs\<rparr> \<noteq> []"
    "\<forall>img \<in> set (ss_images \<lparr>ss_images = imgs\<rparr>). sample_rd (blob_of_stored img) \<noteq> None"
    "loadSlideIndex ?s = idx" "profiles ?s = []" "activeProfileId ?s = DEFAULT_PROFILE_ID"
    using assms
    by (simp_all add: legacy_store_of_def keys_distinct sample_rd_def loadSlideIndex_def
        initial_state_def)
  have d: "(legacy_store_of imgs idx)
             (DATASTORE_KEY_PROFILES \<mapsto> v, DATASTORE_KEY_SLIDESHOW := None,
              DATASTORE_KEY_INDEX := None, DATASTORE_KEY := None)
           = [DATASTORE_KEY_PROFILES \<mapsto> v]" for v
    by (rule ext) (auto simp: legacy_store_of_def keys_distinct keys_distinct [symmetric])
  show ?thesis
    unfolding session_def start_def load_migrates [OF h(1-4)]
    by (simp add: sync_explicit h(5-7) d stored_of_profile_def sample_rd_def)
       (simp add: initial_state_def)
qed

text \<open>
  C4 as stated fails. The loader copies the stored slide index as it is. From a legacy record
  of two images with a slide index of 7, \<^verbatim>\<open>deleteImageAtIndex(2)\<close> (which removes nothing)
  followed by \<^verbatim>\<open>moveImage(0, 1)\<close> leaves the index at 7 with two images. From a legacy record
  of three images with a slide index of -1, \<^verbatim>\<open>deleteImageAtIndex(0)\<close> followed by
  \<^verbatim>\<open>moveImage(0, 1)\<close> leaves the index at -1 with two images.
\<close>

theorem stale_index_survives_delete_then_move:
  "currentIndex (active_profile
      (session (legacy_store_of [sample_stored 1, sample_stored 2] 7))) = 7
   \<and> length (images (active_profile (moveImage 0 1 (deleteImageAtIndex 2
        (session (legacy_store_of [sample_stored 1, sample_stored 2] 7)))))) = 2
   \<and> currentIndex (active_profile (moveImage 0 1 (deleteImageAtIndex 2
        (session (legacy_store_of [sample_stored 1, sample_stored 2] 7))))) = 7
   \<and> \<not> index_in_range (active_profile (moveImage 0 1 (deleteImageAtIndex 2
        (session (legacy_store_of [sample_stored 1, sample_stored 2] 7)))))
   \<and> length (images (active_profile (moveImage 0 1 (deleteImageAtIndex 0
        (session (legacy_store_of [sample_stored 1, sample_stored 2, sample_stored 3] (- 1))))))) = 2
   \<and> currentIndex (active_profile (moveImage 0 1 (deleteImageAtIndex 0
        (session (legacy_store_of [sample_stored 1, sample_stored 2, sample_stored 3] (- 1)))))) = - 1
   \<and> \<not> index_in_range (active_profile (moveImage 0 1 (deleteImageAtIndex 0
        (session (legacy_store_of [sample_stored 1, sample_stored 2, sample_stored 3] (- 1))))))"
proof -
  let ?s = "session (legacy_store_of [sample_stored 1, sample_stored 2] 7)"
  let ?t = "session (legacy_store_of [sample_stored 1, sample_stored 2, sample_stored 3] (- 1))"
  let ?uri = "\<lambda>img. JStr (sample_uri (blob_of_stored img))"
  let ?p = "\<lparr>pid = DEFAULT_PROFILE_ID, pname = ''Default'',
             images = map blob_of_stored [sample_stored 1, sample_stored 2],
             dataUris = map ?uri [sample_stored 1, sample_stored 2],
             currentIndex = 7\<rparr>"
  let ?q = "\<lparr>pid = DEFAULT_PROFILE_ID, pname = ''Default'',
             images = map blob_of_stored [sample_stored 1, sample_stored 2, sample_stored 3],
             dataUris = map ?uri [sample_stored 1, sample_stored 2, sample_stored 3],
             currentIndex = - 1\<rparr>"
  have p: "map_of (profiles ?s) (activeProfileId ?s) = Some ?p"
    by (simp add: session_legacy initial_state_def)
  have q: "map_of (profiles ?t) (activeProfileId ?t) = Some ?q"
    by (simp add: session_legacy initial_state_def)
  have d: "deleteImageAtIndex 2 ?s = ?s"
    using deleteImageAtIndex_out_of_range [of 2 ?s]
    unfolding active_profile_present [OF p] getActiveProfile_present [OF p] by simp
  have a: "active_profile (moveImage 0 1 (deleteImageAtIndex 2 ?s))
           = ?p\<lparr>images := map blob_of_stored [sample_stored 2, sample_stored 1],
                 dataUris := map ?uri [sample_stored 2, sample_stored 1]\<rparr>"
    by (simp add: d moveImage_present [OF p] js_set_def js_get_def)
  have e: "active_profile (deleteImageAtIndex 0 ?t)
           = ?q\<lparr>images := map blob_of_stored [sample_stored 2, sample_stored 3],
                 dataUris := map ?uri [sample_stored 2, sample_stored 3]\<rparr>"
    by (simp add: deleteImageAtIndex_present [OF q] splice1_def)
  note k = deleteImageAtIndex_keeps_active [OF q, of 0, unfolded e]
  have b: "active_profile (moveImage 0 1 (deleteImageAtIndex 0 ?t))
           = ?q\<lparr>images := map blob_of_stored [sample_stored 3, sample_stored 2],
                 dataUris := map ?uri [sample_stored 3, sample_stored 2]\<rparr>"
    by (simp add: moveImage_present [OF k] js_set_def js_get_def)
  show ?thesis
    by (simp add: a b active_profile_present [OF p] index_in_range_def)
qed

subsection \<open>Saving the slide index\<close>

lemma saveSlideIndex_present:
  assumes "map_of (profiles s) (activeProfileId s) = Some p"
  shows "saveSlideIndex i s =
     s\<lparr>profiles := AList.update (activeProfileId s) (p\<lparr>currentIndex := i\<rparr>) (profiles s),
       dataStore := (dataStore s)(DATASTORE_KEY_PROFILES \<mapsto>
          VProfiles \<lparr>spd_profiles = map (stored_of_profile \<circ> snd)
                        (AList.update (activeProfileId s) (p\<lparr>currentIndex := i\<rparr>) (profiles s)),
                     spd_activeProfileId = activeProfileId s\<rparr>),
       cachedImages := images p, cachedDataUris := dataUris p, currentSlideIndex := i,
       cacheRef := Some (activeProfileId s)\<rparr>"
  using assms
  by (cases "cacheRef s = Some (activeProfileId s)")
     (simp_all add: saveSlideIndex_def getActiveProfile_def put_profile_def Let_def
        saveProfilesToDataStore_def syncCacheWithActiveProfile_def update_conv')

lemma sync_frame:
  "isStreamActive (syncCacheWithActiveProfile s) = isStreamActive s"
  "lastSlideChangeTime (syncCacheWithActiveProfile s) = lastSlideChangeTime s"
  "manualSlideChange (syncCacheWithActiveProfile s) = manualSlideChange s"
  "actualStreamImageUri (syncCacheWithActiveProfile s) = actualStreamImageUri s"
  "replaceEnabled (syncCacheWithActiveProfile s) = replaceEnabled s"
  "slideshowEnabled (syncCacheWithActiveProfile s) = slideshowEnabled s"
  "slideshowRandom (syncCacheWithActiveProfile s) = slideshowRandom s"
  "activeProfileId (syncCacheWithActiveProfile s) = activeProfileId s"
  "dataStore (syncCacheWithActiveProfile s) = dataStore s"
  by (cases "map_of (profiles s) (activeProfileId s)";
      simp add: syncCacheWithActiveProfile_def getActiveProfile_def new_profile_fields)+

lemma save_frame:
  "isStreamActive (saveProfilesToDataStore s) = isStreamActive s"
  "lastSlideChangeTime (saveProfilesToDataStore s) = lastSlideChangeTime s"
  "manualSlideChange (saveProfilesToDataStore s) = manualSlideChange s"
  "actualStreamImageUri (saveProfilesToDataStore s) = actualStreamImageUri s"
  "replaceEnabled (saveProfilesToDataStore s) = replaceEnabled s"
  "slideshowEnabled (saveProfilesToDataStore s) = slideshowEnabled s"
  "slideshowRandom (saveProfilesToDataStore s) = slideshowRandom s"
  "activeProfileId (saveProfilesToDataStore s) = activeProfileId s"
  by (simp_all add: saveProfilesToDataStore_def sync_frame)

lemma getActiveProfile_frame:
  "isStreamActive (snd (getActiveProfile s)) = isStreamActive s"
  "lastSlideChangeTime (snd (getActiveProfile s)) = lastSlideChangeTime s"
  "manualSlideChange (snd (getActiveProfile s)) = manualSlideChange s"
  "actualStreamImageUri (snd (getActiveProfile s)) = actualStreamImageUri s"
  "replaceEnabled (snd (getActiveProfile s)) = replaceEnabled s"
  "slideshowEnabled (snd (getActiveProfile s)) = slideshowEnabled s"
  "slideshowRandom (snd (getActiveProfile s)) = slideshowRandom s"
  "activeProfileId (snd (getActiveProfile s)) = activeProfileId s"
  by (cases "map_of (profiles s) (activeProfileId s)";
      simp add: getActiveProfile_def new_profile_fields)+

lemma saveSlideIndex_frame:
  "isStreamActive (saveSlideIndex i s) = isStreamActive s"
  "lastSlideChangeTime (saveSlideIndex i s) = lastSlideChangeTime s"
  "manualSlideChange (saveSlideIndex i s) = manualSlideChange s"
  "actualStreamImageUri (saveSlideIndex i s) = actualStreamImageUri s"
  "replaceEnabled (saveSlideIndex i s) = replaceEnabled s"
  "slideshowEnabled (saveSlideIndex i s) = slideshowEnabled s"
  "slideshowRandom (saveSlideIndex i s) = slideshowRandom s"
  "activeProfileId (saveSlideIndex i s) = activeProfileId s"
  using getActiveProfile_frame [of s]
  by (cases "getActiveProfile s";
      simp add: saveSlideIndex_def save_frame put_profile_fields split: prod.splits)+



text \<open>Every function that writes a profile ends in \<^verbatim>\<open>saveProfilesToDataStore\<close>, which leaves
  the cache in step with the active profile.\<close>

lemma cache_synced_sync:
  "map_of (profiles s) (activeProfileId s) = Some p \<Longrightarrow>
   cache_synced (syncCacheWithActiveProfile s)"
  by (simp add: cache_synced_def syncCacheWithActiveProfile_def getActiveProfile_def)

lemma cache_synced_save:
  "map_of (profiles s) (activeProfileId s) = Some p \<Longrightarrow>
   cache_synced (saveProfilesToDataStore s)"
  by (simp add: saveProfilesToDataStore_def cache_synced_sync)


subsection \<open>The branches of the trigger\<close>

lemma getCustomThumbnail_manual:
  assumes "advancing s" "manualSlideChange s"
  shows "getCustomThumbnail now rnd orig s =
     Some (js_get (cachedDataUris s) (currentSlideIndex s),
           s\<lparr>isStreamActive := True, manualSlideChange := False, lastSlideChangeTime := now,
             actualStreamImageUri := js_get (cachedDataUris s) (currentSlideIndex s)\<rparr>)"
  using assms by (auto simp add: getCustomThumbnail_def Let_def advancing_def cong: option.case_cong)

lemma getCustomThumbnail_advance:
  assumes "advancing s" "\<not> manualSlideChange s"
  shows "getCustomThumbnail now rnd orig s =
     (case (if slideshowRandom s
            then random_index rnd (currentSlideIndex s) (length (cachedDataUris s))
            else Some ((currentSlideIndex s + 1) smod int (length (cachedDataUris s)))) of
        None \<Rightarrow> None
      | Some nextIndex \<Rightarrow>
          Some (js_get (cachedDataUris s) nextIndex,
                saveSlideIndex nextIndex
                  (s\<lparr>isStreamActive := True, currentSlideIndex := nextIndex,
                     lastSlideChangeTime := now,
                     actualStreamImageUri := js_get (cachedDataUris s) nextIndex\<rparr>)))"
  using assms by (auto simp add: getCustomThumbnail_def Let_def advancing_def cong: option.case_cong)

lemma getCustomThumbnail_static:
  assumes "replaceEnabled s" "cachedDataUris s \<noteq> []"
    "length (cachedDataUris s) = 1 \<or> \<not> slideshowEnabled s"
  shows "getCustomThumbnail now rnd orig s =
     Some (js_get (cachedDataUris s)
             (if currentSlideIndex s < int (length (cachedDataUris s))
              then currentSlideIndex s else 0),
           s\<lparr>isStreamActive := True, lastSlideChangeTime := now,
             actualStreamImageUri := js_get (cachedDataUris s)
               (if currentSlideIndex s < int (length (cachedDataUris s))
                then currentSlideIndex s else 0)\<rparr>)"
  using assms by (auto simp add: getCustomThumbnail_def Let_def)



lemma random_index_range:
  "random_index rnd cur n = Some nextIndex \<Longrightarrow> \<forall>r\<in>set rnd. 0 \<le> r \<and> r < 1 \<Longrightarrow> 0 < n \<Longrightarrow>
   0 \<le> nextIndex \<and> nextIndex < int n"
proof (induction rnd)
  case Nil
  then show ?case by simp
next
  case (Cons r rs)
  have r: "0 \<le> r" "r < 1" using Cons.prems(2) by auto
  have "0 \<le> r * real n" using r by simp
  moreover have "r * real n < real n" using r Cons.prems(3) by simp
  ultimately have "0 \<le> \<lfloor>r * real n\<rfloor>" "\<lfloor>r * real n\<rfloor> < int n"
    by (simp_all add: floor_less_iff)
  with Cons show ?case by (auto simp: Let_def split: if_splits)
qed

subsection \<open>Sequential rotation\<close>












subsection \<open>Random order\<close>





subsection \<open>Manual override\<close>






subsection \<open>Sessions on a multi-profile record\<close>

lemma restore_images_sample:
  "restore_images sample_rd imgs =
     Some (map blob_of_stored imgs, map (\<lambda>img. JStr (sample_uri (blob_of_stored img))) imgs)"
  using restore_images_success [of imgs sample_rd] by (simp add: sample_rd_def)

lemma session_profile_store:
  "session (profile_store_of imgs idx) =
     initial_state\<lparr>
       profiles := [(DEFAULT_PROFILE_ID,
            \<lparr>pid = DEFAULT_PROFILE_ID, pname = ''Default'',
             images = map blob_of_stored imgs,
             dataUris = map (\<lambda>img. JStr (sample_uri (blob_of_stored img))) imgs,
             currentIndex = idx\<rparr>)],
       cachedImages := map blob_of_stored imgs,
       cachedDataUris := map (\<lambda>img. JStr (sample_uri (blob_of_stored img))) imgs,
       currentSlideIndex := idx,
       dataStore := profile_store_of imgs idx,
       cacheRef := Some DEFAULT_PROFILE_ID\<rparr>"
proof -
  let ?d = "\<lparr>spd_profiles =
                [\<lparr>sp_id = DEFAULT_PROFILE_ID, sp_name = ''Default'',
                  sp_images = imgs, sp_currentIndex = idx\<rparr>],
              spd_activeProfileId = DEFAULT_PROFILE_ID\<rparr>"
  let ?s = "initial_state\<lparr>dataStore := profile_store_of imgs idx\<rparr>"
  let ?p = "\<lparr>pid = DEFAULT_PROFILE_ID, pname = ''Default'',
             images = map blob_of_stored imgs,
             dataUris = map (\<lambda>img. JStr (sample_uri (blob_of_stored img))) imgs,
             currentIndex = idx\<rparr>"
  have h: "dataStore ?s DATASTORE_KEY_PROFILES = Some (VProfiles ?d)"
    "spd_profiles ?d \<noteq> []"
    "restore_profiles sample_rd (spd_profiles ?d) [] = Inr [(DEFAULT_PROFILE_ID, ?p)]"
    by (simp_all add: profile_store_of_def restore_images_sample)
  have n: "DEFAULT_PROFILE_ID \<noteq> []" by (simp add: DEFAULT_PROFILE_ID_def)
  show ?thesis
    unfolding session_def start_def load_profiles [OF h]
    by (simp add: sync_explicit n) (simp add: initial_state_def)
qed

lemma session_two_profiles:
  "session two_profile_store =
     initial_state\<lparr>
       profiles :=
         [(DEFAULT_PROFILE_ID,
            \<lparr>pid = DEFAULT_PROFILE_ID, pname = ''Default'',
             images = [\<lparr>btype = ''image/jpeg'', bdata = [1]\<rparr>,
                       \<lparr>btype = ''image/jpeg'', bdata = [2]\<rparr>],
             dataUris = [JStr ''data:image/jpeg;base64,1'', JStr ''data:image/jpeg;base64,2''],
             currentIndex = 0\<rparr>),
          (''profile_1'',
            \<lparr>pid = ''profile_1'', pname = ''Second'',
             images = [\<lparr>btype = ''image/jpeg'', bdata = [3]\<rparr>,
                       \<lparr>btype = ''image/jpeg'', bdata = [3]\<rparr>],
             dataUris = [JStr ''data:image/jpeg;base64,3'', JStr ''data:image/jpeg;base64,3''],
             currentIndex = 1\<rparr>)],
       activeProfileId := ''profile_1'',
       cachedImages := [\<lparr>btype = ''image/jpeg'', bdata = [3]\<rparr>,
                        \<lparr>btype = ''image/jpeg'', bdata = [3]\<rparr>],
       cachedDataUris := [JStr ''data:image/jpeg;base64,3'', JStr ''data:image/jpeg;base64,3''],
       currentSlideIndex := 1,
       dataStore := two_profile_store,
       cacheRef := Some ''profile_1''\<rparr>"
proof -
  let ?d = "\<lparr>spd_profiles =
                [\<lparr>sp_id = DEFAULT_PROFILE_ID, sp_name = ''Default'',
                  sp_images = [sample_stored 1, sample_stored 2], sp_currentIndex = 0\<rparr>,
                 \<lparr>sp_id = ''profile_1'', sp_name = ''Second'',
                  sp_images = [sample_stored 3, sample_stored 3], sp_currentIndex = 1\<rparr>],
              spd_activeProfileId = ''profile_1''\<rparr>"
  let ?s = "initial_state\<lparr>dataStore := two_profile_store\<rparr>"
  let ?ps = "[(DEFAULT_PROFILE_ID,
            \<lparr>pid = DEFAULT_PROFILE_ID, pname = ''Default'',
             images = [\<lparr>btype = ''image/jpeg'', bdata = [1]\<rparr>,
                       \<lparr>btype = ''image/jpeg'', bdata = [2]\<rparr>],
             dataUris = [JStr ''data:image/jpeg;base64,1'', JStr ''data:image/jpeg;base64,2''],
             currentIndex = 0\<rparr>),
          (''profile_1'',
            \<lparr>pid = ''profile_1'', pname = ''Second'',
             images = [\<lparr>btype = ''image/jpeg'', bdata = [3]\<rparr>,
                       \<lparr>btype = ''image/jpeg'', bdata = [3]\<rparr>],
             dataUris = [JStr ''data:image/jpeg;base64,3'', JStr ''data:image/jpeg;base64,3''],
             currentIndex = 1\<rparr>)]"
  have h: "dataStore ?s DATASTORE_KEY_PROFILES = Some (VProfiles ?d)"
    "spd_profiles ?d \<noteq> []"
    "restore_profiles sample_rd (spd_profiles ?d) [] = Inr ?ps"
    by (simp_all add: two_profile_store_def sample_rd_def sample_stored_def
        blob_of_stored_def sample_uri_def sample_digit_def DEFAULT_PROFILE_ID_def)
  show ?thesis
    unfolding session_def start_def load_profiles [OF h]
    by (simp add: syncCacheWithActiveProfile_def getActiveProfile_def DEFAULT_PROFILE_ID_def
        initial_state_def)
qed

lemma handleSave_present:
  assumes "map_of (profiles s) (activeProfileId s) = Some p"
  shows "handleSave pendingIndex pluginEnabled slideshowOn randomOn s =
     s\<lparr>replaceEnabled := pluginEnabled, slideshowEnabled := slideshowOn,
       slideshowRandom := randomOn,
       manualSlideChange := (manualSlideChange s \<or> pendingIndex \<noteq> currentSlideIndex s),
       profiles := AList.update (activeProfileId s) (p\<lparr>currentIndex := pendingIndex\<rparr>)
                     (profiles s),
       dataStore := (dataStore s)(DATASTORE_KEY_PROFILES \<mapsto>
          VProfiles \<lparr>spd_profiles = map (stored_of_profile \<circ> snd)
                        (AList.update (activeProfileId s) (p\<lparr>currentIndex := pendingIndex\<rparr>)
                           (profiles s)),
                     spd_activeProfileId = activeProfileId s\<rparr>),
       cachedImages := images p, cachedDataUris := dataUris p,
       currentSlideIndex := pendingIndex,
       cacheRef := Some (activeProfileId s)\<rparr>"
proof -
  let ?s3 = "s\<lparr>replaceEnabled := pluginEnabled, slideshowEnabled := slideshowOn,
       slideshowRandom := randomOn,
       manualSlideChange := (manualSlideChange s \<or> pendingIndex \<noteq> currentSlideIndex s),
       currentSlideIndex := pendingIndex\<rparr>"
  have "handleSave pendingIndex pluginEnabled slideshowOn randomOn s
        = saveSlideIndex pendingIndex ?s3"
    by (simp add: handleSave_def Let_def)
  moreover have "map_of (profiles ?s3) (activeProfileId ?s3) = Some p" using assms by simp
  ultimately show ?thesis by (simp add: saveSlideIndex_present)
qed

subsection \<open>What a trigger that shows an image records\<close>

lemma stored_record:
  "stored_of_profile \<circ> snd =
     (\<lambda>kp. \<lparr>sp_id = pid (snd kp), sp_name = pname (snd kp),
            sp_images = map (\<lambda>b. \<lparr>si_type = btype b, si_data = map uint (bdata b)\<rparr>)
                          (images (snd kp)),
            sp_currentIndex = currentIndex (snd kp)\<rparr>)"
  by (rule ext) (simp add: stored_of_profile_def stored_of_blob_def)

lemma update_member:
  "map_of ps k = Some v \<Longrightarrow> (k, w) \<in> set (AList.update k w ps)"
  by (rule map_of_SomeD) (simp add: update_conv')

text \<open>
  C3, as amended. Every invocation of the trigger that shows a custom image (replacement
  enabled, at least one image) records the time of the invocation. Only the advancing
  branch writes: it makes the new index the slide index of the active profile (the active
  identifier naming a profile), and it writes under the multi-profile key the record of the
  profile collection as it then is: identifier, name, type and bytes of every image, and
  slide index of every profile, and the active identifier; the record lists the active
  profile with the new index. The single-image or slideshow-off branch and the
  manual-override branch leave the index, the profiles and the \<^verbatim>\<open>DataStore\<close> as they are.
\<close>

theorem shown_image_effects:
  assumes "replaceEnabled s" and "cachedDataUris s \<noteq> []"
    and "getCustomThumbnail now rnd originalThumbnail s = Some (shown, s')"
  shows "lastSlideChangeTime s' = now
       \<and> (advancing s \<and> \<not> manualSlideChange s
            \<and> map_of (profiles s) (activeProfileId s) = Some p \<longrightarrow>
           shown = js_get (cachedDataUris s) (currentSlideIndex s')
         \<and> profiles s' =
             AList.update (activeProfileId s) (p\<lparr>currentIndex := currentSlideIndex s'\<rparr>)
               (profiles s)
         \<and> activeProfileId s' = activeProfileId s
         \<and> dataStore s' =
             (dataStore s)
               (DATASTORE_KEY_PROFILES \<mapsto>
                  VProfiles
                    \<lparr>spd_profiles =
                       map (\<lambda>kp. \<lparr>sp_id = pid (snd kp), sp_name = pname (snd kp),
                                   sp_images =
                                     map (\<lambda>b. \<lparr>si_type = btype b,
                                                si_data = map uint (bdata b)\<rparr>)
                                       (images (snd kp)),
                                   sp_currentIndex = currentIndex (snd kp)\<rparr>) (profiles s'),
                     spd_activeProfileId = activeProfileId s\<rparr>)
         \<and> (case dataStore s' DATASTORE_KEY_PROFILES of
               Some (VProfiles d) \<Rightarrow>
                 \<lparr>sp_id = pid p, sp_name = pname p,
                  sp_images = map (\<lambda>b. \<lparr>si_type = btype b, si_data = map uint (bdata b)\<rparr>)
                                (images p),
                  sp_currentIndex = currentSlideIndex s'\<rparr> \<in> set (spd_profiles d)
             | _ \<Rightarrow> False))
       \<and> (\<not> advancing s \<or> manualSlideChange s \<longrightarrow>
           dataStore s' = dataStore s \<and> profiles s' = profiles s
         \<and> currentSlideIndex s' = currentSlideIndex s)"
proof (cases "advancing s")
  case False
  with assms(1,2) have "length (cachedDataUris s) = 1 \<or> \<not> slideshowEnabled s"
  proof -
    have "0 < length (cachedDataUris s)" using assms(2) by simp
    with False assms(1) show ?thesis unfolding advancing_def by linarith
  qed
  from getCustomThumbnail_static [OF assms(1,2) this, of now rnd originalThumbnail] assms(3) False
  show ?thesis by auto
next
  case adv: True
  show ?thesis
  proof (cases "manualSlideChange s")
    case True
    from getCustomThumbnail_manual [OF adv True, of now rnd originalThumbnail] assms(3)
    show ?thesis using True by auto
  next
    case False
    from getCustomThumbnail_advance [OF adv False, of now rnd originalThumbnail] assms(3)
    obtain nextIndex where
      sh: "shown = js_get (cachedDataUris s) nextIndex"
      and s': "s' = saveSlideIndex nextIndex
                  (s\<lparr>isStreamActive := True, currentSlideIndex := nextIndex,
                     lastSlideChangeTime := now,
                     actualStreamImageUri := js_get (cachedDataUris s) nextIndex\<rparr>)"
      by (auto split: option.splits if_splits)
    let ?s = "s\<lparr>isStreamActive := True, currentSlideIndex := nextIndex,
                     lastSlideChangeTime := now,
                     actualStreamImageUri := js_get (cachedDataUris s) nextIndex\<rparr>"
    let ?ser = "\<lambda>kp. \<lparr>sp_id = pid (snd kp), sp_name = pname (snd kp),
                         sp_images =
                           map (\<lambda>b. \<lparr>si_type = btype b, si_data = map uint (bdata b)\<rparr>)
                             (images (snd kp)),
                         sp_currentIndex = currentIndex (snd kp)\<rparr>"
    have t: "lastSlideChangeTime s' = now" by (simp add: s' saveSlideIndex_frame)
    have w: "shown = js_get (cachedDataUris s) (currentSlideIndex s')
         \<and> profiles s' =
             AList.update (activeProfileId s) (p\<lparr>currentIndex := currentSlideIndex s'\<rparr>)
               (profiles s)
         \<and> activeProfileId s' = activeProfileId s
         \<and> dataStore s' =
             (dataStore s)
               (DATASTORE_KEY_PROFILES \<mapsto>
                  VProfiles \<lparr>spd_profiles = map ?ser (profiles s'),
                             spd_activeProfileId = activeProfileId s\<rparr>)
         \<and> (case dataStore s' DATASTORE_KEY_PROFILES of
               Some (VProfiles d) \<Rightarrow>
                 \<lparr>sp_id = pid p, sp_name = pname p,
                  sp_images = map (\<lambda>b. \<lparr>si_type = btype b, si_data = map uint (bdata b)\<rparr>)
                                (images p),
                  sp_currentIndex = currentSlideIndex s'\<rparr> \<in> set (spd_profiles d)
             | _ \<Rightarrow> False)"
      if p: "map_of (profiles s) (activeProfileId s) = Some p"
    proof -
      have "map_of (profiles ?s) (activeProfileId ?s) = Some p" using p by simp
      note e = saveSlideIndex_present [OF this, of nextIndex, folded s', unfolded stored_record]
      let ?ps = "AList.update (activeProfileId s) (p\<lparr>currentIndex := nextIndex\<rparr>) (profiles s)"
      have ix: "currentSlideIndex s' = nextIndex" by (simp add: e)
      have pr: "profiles s' = ?ps" by (simp add: e)
      have ac: "activeProfileId s' = activeProfileId s" by (simp add: e)
      have ds: "dataStore s' =
             (dataStore s)
               (DATASTORE_KEY_PROFILES \<mapsto>
                  VProfiles \<lparr>spd_profiles = map ?ser ?ps,
                             spd_activeProfileId = activeProfileId s\<rparr>)"
        by (simp add: e)
      have "(activeProfileId s, p\<lparr>currentIndex := nextIndex\<rparr>) \<in> set ?ps"
        using update_member [OF p] .
      then have "?ser (activeProfileId s, p\<lparr>currentIndex := nextIndex\<rparr>) \<in> set (map ?ser ?ps)"
        by (simp only: set_map) (rule imageI)
      then have me: "\<lparr>sp_id = pid p, sp_name = pname p,
                  sp_images = map (\<lambda>b. \<lparr>si_type = btype b, si_data = map uint (bdata b)\<rparr>)
                                (images p),
                  sp_currentIndex = nextIndex\<rparr> \<in> set (map ?ser ?ps)"
        by simp
      show ?thesis
        unfolding ix pr ac using sh me by (simp add: ds)
    qed
    from t w adv False show ?thesis by blast
  qed
qed

lemma three_image_session:
  "map_of (profiles (session (profile_store_of [sample_stored 1, sample_stored 2, sample_stored 3] 0)))
     (activeProfileId (session (profile_store_of [sample_stored 1, sample_stored 2, sample_stored 3] 0)))
   = Some \<lparr>pid = DEFAULT_PROFILE_ID, pname = ''Default'',
           images = [\<lparr>btype = ''image/jpeg'', bdata = [1]\<rparr>,
                     \<lparr>btype = ''image/jpeg'', bdata = [2]\<rparr>,
                     \<lparr>btype = ''image/jpeg'', bdata = [3]\<rparr>],
           dataUris = [JStr ''data:image/jpeg;base64,1'', JStr ''data:image/jpeg;base64,2'',
                       JStr ''data:image/jpeg;base64,3''],
           currentIndex = 0\<rparr>"
  by (simp add: session_profile_store initial_state_def sample_stored_def blob_of_stored_def
      sample_uri_def sample_digit_def)

theorem shown_image_effects_witness:
  "replaceEnabled (handleSave 0 True True False
      (session (profile_store_of [sample_stored 1, sample_stored 2, sample_stored 3] 0)))
   \<and> cachedDataUris (handleSave 0 True True False
        (session (profile_store_of [sample_stored 1, sample_stored 2, sample_stored 3] 0))) \<noteq> []
   \<and> advancing (handleSave 0 True True False
        (session (profile_store_of [sample_stored 1, sample_stored 2, sample_stored 3] 0)))
   \<and> \<not> manualSlideChange (handleSave 0 True True False
        (session (profile_store_of [sample_stored 1, sample_stored 2, sample_stored 3] 0)))
   \<and> map_option fst (getCustomThumbnail 300000 [] ''live'' (handleSave 0 True True False
        (session (profile_store_of [sample_stored 1, sample_stored 2, sample_stored 3] 0))))
       = Some (JStr ''data:image/jpeg;base64,2'')
   \<and> map_option (lastSlideChangeTime \<circ> snd)
        (getCustomThumbnail 300000 [] ''live'' (handleSave 0 True True False
          (session (profile_store_of [sample_stored 1, sample_stored 2, sample_stored 3] 0))))
       = Some 300000
   \<and> map_option (currentSlideIndex \<circ> snd)
        (getCustomThumbnail 300000 [] ''live'' (handleSave 0 True True False
          (session (profile_store_of [sample_stored 1, sample_stored 2, sample_stored 3] 0))))
       = Some 1
   \<and> map_option ((\<lambda>s. dataStore s DATASTORE_KEY_PROFILES) \<circ> snd)
        (getCustomThumbnail 300000 [] ''live'' (handleSave 0 True True False
          (session (profile_store_of [sample_stored 1, sample_stored 2, sample_stored 3] 0))))
       = Some (Some (VProfiles
           \<lparr>spd_profiles =
              [\<lparr>sp_id = DEFAULT_PROFILE_ID, sp_name = ''Default'',
                sp_images = [\<lparr>si_type = ''image/jpeg'', si_data = [1]\<rparr>,
                             \<lparr>si_type = ''image/jpeg'', si_data = [2]\<rparr>,
                             \<lparr>si_type = ''image/jpeg'', si_data = [3]\<rparr>],
                sp_currentIndex = 1\<rparr>],
            spd_activeProfileId = DEFAULT_PROFILE_ID\<rparr>))
   \<and> replaceEnabled (session (profile_store_of [sample_stored 1, sample_stored 2] 1))
   \<and> cachedDataUris (session (profile_store_of [sample_stored 1, sample_stored 2] 1)) \<noteq> []
   \<and> \<not> advancing (session (profile_store_of [sample_stored 1, sample_stored 2] 1))
   \<and> map_option fst (getCustomThumbnail 300000 [] ''live''
        (session (profile_store_of [sample_stored 1, sample_stored 2] 1)))
       = Some (JStr ''data:image/jpeg;base64,2'')
   \<and> map_option (lastSlideChangeTime \<circ> snd) (getCustomThumbnail 300000 [] ''live''
        (session (profile_store_of [sample_stored 1, sample_stored 2] 1))) = Some 300000
   \<and> map_option (currentSlideIndex \<circ> snd) (getCustomThumbnail 300000 [] ''live''
        (session (profile_store_of [sample_stored 1, sample_stored 2] 1))) = Some 1
   \<and> map_option (profiles \<circ> snd) (getCustomThumbnail 300000 [] ''live''
        (session (profile_store_of [sample_stored 1, sample_stored 2] 1)))
       = Some (profiles (session (profile_store_of [sample_stored 1, sample_stored 2] 1)))
   \<and> map_option (dataStore \<circ> snd) (getCustomThumbnail 300000 [] ''live''
        (session (profile_store_of [sample_stored 1, sample_stored 2] 1)))
       = Some (profile_store_of [sample_stored 1, sample_stored 2] 1)
   \<and> manualSlideChange (handleSave 2 True True False
        (session (profile_store_of [sample_stored 1, sample_stored 2, sample_stored 3] 0)))
   \<and> map_option fst (getCustomThumbnail 300000 [] ''live'' (handleSave 2 True True False
        (session (profile_store_of [sample_stored 1, sample_stored 2, sample_stored 3] 0))))
       = Some (JStr ''data:image/jpeg;base64,3'')
   \<and> map_option (lastSlideChangeTime \<circ> snd)
        (getCustomThumbnail 300000 [] ''live'' (handleSave 2 True True False
          (session (profile_store_of [sample_stored 1, sample_stored 2, sample_stored 3] 0))))
       = Some 300000
   \<and> map_option (dataStore \<circ> snd)
        (getCustomThumbnail 300000 [] ''live'' (handleSave 2 True True False
          (session (profile_store_of [sample_stored 1, sample_stored 2, sample_stored 3] 0))))
       = Some (dataStore (handleSave 2 True True False
          (session (profile_store_of [sample_stored 1, sample_stored 2, sample_stored 3] 0))))"
proof -
  let ?b = "session (profile_store_of [sample_stored 1, sample_stored 2, sample_stored 3] 0)"
  let ?a = "handleSave 0 True True False ?b"
  let ?m = "handleSave 2 True True False ?b"
  let ?t = "session (profile_store_of [sample_stored 1, sample_stored 2] 1)"
  let ?p = "\<lparr>pid = DEFAULT_PROFILE_ID, pname = ''Default'',
           images = [\<lparr>btype = ''image/jpeg'', bdata = [1]\<rparr>,
                     \<lparr>btype = ''image/jpeg'', bdata = [2]\<rparr>,
                     \<lparr>btype = ''image/jpeg'', bdata = [3]\<rparr>],
           dataUris = [JStr ''data:image/jpeg;base64,1'', JStr ''data:image/jpeg;base64,2'',
                       JStr ''data:image/jpeg;base64,3''],
           currentIndex = 0\<rparr>"
  note a = handleSave_present [OF three_image_session, of 0 True True False]
  note m = handleSave_present [OF three_image_session, of 2 True True False]
  have b: "currentSlideIndex ?b = 0" "manualSlideChange ?b = False"
    "activeProfileId ?b = DEFAULT_PROFILE_ID" "profiles ?b = [(DEFAULT_PROFILE_ID, ?p)]"
    "dataStore ?b DATASTORE_KEY_PROFILES
       = profile_store_of [sample_stored 1, sample_stored 2, sample_stored 3] 0
           DATASTORE_KEY_PROFILES"
    by (simp_all add: session_profile_store initial_state_def sample_stored_def
        blob_of_stored_def sample_uri_def sample_digit_def)
  have ha: "replaceEnabled ?a" "cachedDataUris ?a \<noteq> []" "advancing ?a"
    "\<not> manualSlideChange ?a" "map_of (profiles ?a) (activeProfileId ?a) = Some ?p"
    "currentSlideIndex ?a = 0"
    "cachedDataUris ?a = [JStr ''data:image/jpeg;base64,1'', JStr ''data:image/jpeg;base64,2'',
                       JStr ''data:image/jpeg;base64,3'']"
    "slideshowRandom ?a = False" "activeProfileId ?a = DEFAULT_PROFILE_ID"
    "profiles ?a = [(DEFAULT_PROFILE_ID, ?p)]"
    unfolding a by (simp_all add: b advancing_def)
  obtain shown s' where r: "getCustomThumbnail 300000 [] ''live'' ?a = Some (shown, s')"
    and sh: "shown = JStr ''data:image/jpeg;base64,2''"
    and ix: "currentSlideIndex s' = 1"
    using getCustomThumbnail_advance [OF ha(3,4), of 300000 "[]" "''live''"]
    by (simp add: ha(6,7,8) smod_int_alt_def js_get_def saveSlideIndex_present [of _ ?p] ha(5))
  from shown_image_effects [OF ha(1,2) r, of ?p] ha(3,4,5) ix
  have ca: "lastSlideChangeTime s' = 300000"
    "dataStore s' DATASTORE_KEY_PROFILES =
       Some (VProfiles
           \<lparr>spd_profiles =
              [\<lparr>sp_id = DEFAULT_PROFILE_ID, sp_name = ''Default'',
                sp_images = [\<lparr>si_type = ''image/jpeg'', si_data = [1]\<rparr>,
                             \<lparr>si_type = ''image/jpeg'', si_data = [2]\<rparr>,
                             \<lparr>si_type = ''image/jpeg'', si_data = [3]\<rparr>],
                sp_currentIndex = 1\<rparr>],
            spd_activeProfileId = DEFAULT_PROFILE_ID\<rparr>)"
    by (simp_all add: ha(9,10))
  have hm: "replaceEnabled ?m" "cachedDataUris ?m \<noteq> []" "advancing ?m"
    "manualSlideChange ?m" "currentSlideIndex ?m = 2"
    "cachedDataUris ?m = [JStr ''data:image/jpeg;base64,1'', JStr ''data:image/jpeg;base64,2'',
                       JStr ''data:image/jpeg;base64,3'']"
    unfolding m by (simp_all add: b advancing_def)
  obtain shown2 m' where r2: "getCustomThumbnail 300000 [] ''live'' ?m = Some (shown2, m')"
    and sh2: "shown2 = JStr ''data:image/jpeg;base64,3''"
    using getCustomThumbnail_manual [OF hm(3,4), of 300000 "[]" "''live''"]
    by (simp add: hm(5,6) js_get_def)
  from shown_image_effects [OF hm(1,2) r2, of ?p] hm(4)
  have cm: "lastSlideChangeTime m' = 300000" "dataStore m' = dataStore ?m"
    by simp_all
  have ht: "replaceEnabled ?t" "cachedDataUris ?t \<noteq> []" "\<not> advancing ?t"
    "currentSlideIndex ?t = 1"
    "cachedDataUris ?t = [JStr ''data:image/jpeg;base64,1'', JStr ''data:image/jpeg;base64,2'']"
    "dataStore ?t = profile_store_of [sample_stored 1, sample_stored 2] 1"
    by (simp_all add: session_profile_store initial_state_def sample_stored_def
        blob_of_stored_def sample_uri_def sample_digit_def advancing_def)
  obtain shown3 t' where r3: "getCustomThumbnail 300000 [] ''live'' ?t = Some (shown3, t')"
    and sh3: "shown3 = JStr ''data:image/jpeg;base64,2''"
    using ht(1,3)
    by (simp add: getCustomThumbnail_def Let_def advancing_def ht(4,5) js_get_def)
  from shown_image_effects [OF ht(1,2) r3, of ?p] ht(3,4,6)
  have ct: "lastSlideChangeTime t' = 300000" "dataStore t'
      = profile_store_of [sample_stored 1, sample_stored 2] 1"
    "profiles t' = profiles ?t" "currentSlideIndex t' = 1"
    by simp_all
  from ha(1-4) r sh ix ca hm(4) r2 sh2 cm ht(1-3) r3 sh3 ct show ?thesis by simp
qed

lemma deleteAllImages_present:
  assumes "map_of (profiles s) (activeProfileId s) = Some p"
  shows "deleteAllImages s =
     s\<lparr>profiles := AList.update (activeProfileId s)
                     (p\<lparr>images := [], dataUris := [], currentIndex := 0\<rparr>) (profiles s),
       dataStore := (dataStore s)(DATASTORE_KEY_PROFILES \<mapsto>
          VProfiles \<lparr>spd_profiles = map (stored_of_profile \<circ> snd)
                        (AList.update (activeProfileId s)
                           (p\<lparr>images := [], dataUris := [], currentIndex := 0\<rparr>) (profiles s)),
                     spd_activeProfileId = activeProfileId s\<rparr>),
       cachedImages := [], cachedDataUris := [], currentSlideIndex := 0,
       cacheRef := Some (activeProfileId s)\<rparr>"
proof -
  let ?p' = "p\<lparr>images := [], dataUris := [], currentIndex := 0\<rparr>"
  let ?s1 = "s\<lparr>profiles := AList.update (activeProfileId s) ?p' (profiles s),
               cacheRef := (if cacheRef s = Some (activeProfileId s) then None else cacheRef s)\<rparr>"
  let ?s2 = "s\<lparr>profiles := AList.update (activeProfileId s) ?p' (profiles s),
               cachedImages := [], cachedDataUris := [], currentSlideIndex := 0,
               cacheRef := Some (activeProfileId s)\<rparr>"
  have g: "getActiveProfile s = ((activeProfileId s, p), s)"
    using assms by (rule getActiveProfile_present)
  have a: "map_of (profiles ?s1) (activeProfileId ?s1) = Some ?p'"
    by (simp add: update_conv')
  have c: "syncCacheWithActiveProfile ?s1 = ?s2"
    by (simp add: sync_explicit [OF a])
  have b: "map_of (profiles ?s2) (activeProfileId ?s2) = Some ?p'"
    by (simp add: update_conv')
  have "deleteAllImages s = saveProfilesToDataStore ?s2"
    by (simp add: deleteAllImages_def g c)
  then show ?thesis by (simp add: save_explicit [OF b])
qed

lemma abandoned_gallery_state:
  "abandoned_gallery =
     initial_state\<lparr>
       profiles :=
         [(DEFAULT_PROFILE_ID,
            \<lparr>pid = DEFAULT_PROFILE_ID, pname = ''Default'',
             images = [\<lparr>btype = ''image/jpeg'', bdata = [1]\<rparr>,
                       \<lparr>btype = ''image/jpeg'', bdata = [2]\<rparr>],
             dataUris = [JStr ''data:image/jpeg;base64,1'', JStr ''data:image/jpeg;base64,2''],
             currentIndex = 0\<rparr>)],
       cachedImages := [\<lparr>btype = ''image/jpeg'', bdata = [1]\<rparr>,
                        \<lparr>btype = ''image/jpeg'', bdata = [2]\<rparr>],
       cachedDataUris := [JStr ''data:image/jpeg;base64,1'', JStr ''data:image/jpeg;base64,2''],
       currentSlideIndex := 1,
       dataStore :=
         [DATASTORE_KEY_PROFILES \<mapsto>
            VProfiles
              \<lparr>spd_profiles =
                 [\<lparr>sp_id = DEFAULT_PROFILE_ID, sp_name = ''Default'',
                   sp_images = [\<lparr>si_type = ''image/jpeg'', si_data = [1]\<rparr>,
                                \<lparr>si_type = ''image/jpeg'', si_data = [2]\<rparr>],
                   sp_currentIndex = 0\<rparr>],
               spd_activeProfileId = DEFAULT_PROFILE_ID\<rparr>],
       cacheRef := Some DEFAULT_PROFILE_ID\<rparr>"
proof -
  let ?d = "\<lparr>pid = DEFAULT_PROFILE_ID, pname = ''Default'',
             images = [\<lparr>btype = ''image/jpeg'', bdata = [1]\<rparr>,
                       \<lparr>btype = ''image/jpeg'', bdata = [2]\<rparr>],
             dataUris = [JStr ''data:image/jpeg;base64,1'', JStr ''data:image/jpeg;base64,2''],
             currentIndex = 0\<rparr>"
  let ?q = "\<lparr>pid = ''profile_1'', pname = ''Second'',
             images = [\<lparr>btype = ''image/jpeg'', bdata = [3]\<rparr>,
                       \<lparr>btype = ''image/jpeg'', bdata = [3]\<rparr>],
             dataUris = [JStr ''data:image/jpeg;base64,3'', JStr ''data:image/jpeg;base64,3''],
             currentIndex = 1\<rparr>"
  let ?qe = "\<lparr>pid = ''profile_1'', pname = ''Second'', images = [], dataUris = [],
              currentIndex = 0\<rparr>"
  let ?b = "session two_profile_store"
  let ?init = "\<lparr>init_enabled = True, init_slideshowEnabled = False,
                 init_slideshowRandom = False, init_slideIndex = 1,
                 init_activeProfileId = ''profile_1''\<rparr>"
  have n: "DEFAULT_PROFILE_ID \<noteq> ''profile_1''" "''profile_1'' \<noteq> DEFAULT_PROFILE_ID"
    by (simp_all add: DEFAULT_PROFILE_ID_def)
  have f0: "profiles ?b = [(DEFAULT_PROFILE_ID, ?d), (''profile_1'', ?q)]"
    "activeProfileId ?b = ''profile_1''" "currentSlideIndex ?b = 1"
    "replaceEnabled ?b" "\<not> slideshowEnabled ?b" "\<not> slideshowRandom ?b"
    by (simp_all add: session_two_profiles initial_state_def)
  have i: "initialSettingsRef ?b = ?init"
    by (simp add: initialSettingsRef_def f0)
  have p0: "map_of (profiles ?b) (activeProfileId ?b) = Some ?q"
    by (simp add: f0 n)
  define s1 where "s1 = deleteAllImages ?b"
  have f1: "profiles s1 = [(DEFAULT_PROFILE_ID, ?d), (''profile_1'', ?qe)]"
    "activeProfileId s1 = ''profile_1''" "cacheRef s1 = Some ''profile_1''"
    "replaceEnabled s1" "\<not> slideshowEnabled s1" "\<not> slideshowRandom s1"
    "lastSlideChangeTime s1 = 0" "isStreamActive s1 = False" "manualSlideChange s1 = False"
    "actualStreamImageUri s1 = JNull"
    unfolding s1_def deleteAllImages_present [OF p0]
    by (simp_all add: f0 n session_two_profiles initial_state_def)
  define s2 where "s2 = snd (deleteProfile ''profile_1'' s1)"
  have e2: "s2 = syncCacheWithActiveProfile
      (s1\<lparr>profiles := [(DEFAULT_PROFILE_ID, ?d)], cacheRef := None,
          activeProfileId := DEFAULT_PROFILE_ID\<rparr>)"
    unfolding s2_def by (simp add: deleteProfile_def f1 n Let_def)
  have f2: "s2 = s1\<lparr>profiles := [(DEFAULT_PROFILE_ID, ?d)],
                    activeProfileId := DEFAULT_PROFILE_ID,
                    cachedImages := images ?d, cachedDataUris := dataUris ?d,
                    currentSlideIndex := 0, cacheRef := Some DEFAULT_PROFILE_ID\<rparr>"
    unfolding e2 by (subst sync_explicit [of _ ?d]) simp_all
  have p2: "map_of (profiles s2) (activeProfileId s2) = Some ?d"
    by (simp add: f2)
  define s3 where "s3 = snd (setActiveProfile DEFAULT_PROFILE_ID (saveProfilesToDataStore s2))"
  have f3: "s3 = s2\<lparr>dataStore := (dataStore s2)(DATASTORE_KEY_PROFILES \<mapsto>
          VProfiles \<lparr>spd_profiles = map (stored_of_profile \<circ> snd) (profiles s2),
                     spd_activeProfileId = activeProfileId s2\<rparr>)\<rparr>"
    unfolding s3_def save_explicit [OF p2]
    by (simp add: setActiveProfile_def f2) (subst sync_explicit [of _ ?d], simp_all add: f2)
  have a: "abandoned_gallery = close_unsaved ?init s3"
    by (simp add: abandoned_gallery_def Let_def i s1_def s2_def s3_def)
  have e1: "s1 = ?b\<lparr>profiles := [(DEFAULT_PROFILE_ID, ?d), (''profile_1'', ?qe)],
       dataStore := (dataStore ?b)(DATASTORE_KEY_PROFILES \<mapsto>
          VProfiles \<lparr>spd_profiles = map (stored_of_profile \<circ> snd)
                        [(DEFAULT_PROFILE_ID, ?d), (''profile_1'', ?qe)],
                     spd_activeProfileId = ''profile_1''\<rparr>),
       cachedImages := [], cachedDataUris := [], currentSlideIndex := 0,
       cacheRef := Some ''profile_1''\<rparr>"
    unfolding s1_def deleteAllImages_present [OF p0] by (simp add: f0 n)
  have g: "map_of (profiles s3) ''profile_1'' = None"
    by (simp add: f3 f2 n)
  have "close_unsaved ?init s3 = s3\<lparr>currentSlideIndex := 1\<rparr>"
    by (simp add: close_unsaved_def setActiveProfile_def g f3 f2 f1 n)
  then show ?thesis
    unfolding a f3 f2 e1 session_two_profiles
    by (simp add: stored_of_profile_def stored_of_blob_def two_profile_store_def
        initial_state_def)
qed

text \<open>
  C3 as stated fails. The gallery is opened on the second profile (slide 1 selected), the
  images of that profile and then the profile are deleted, and the gallery is closed with
  nothing saved: the clean-up puts the slide index back to 1 and cannot make the deleted
  profile active again. The default profile is active, with two images and the stored slide
  index 0. The next trigger (slideshow off) shows the image at index 1 and records the time;
  the slide index is 1, and the record in the \<^verbatim>\<open>DataStore\<close> still gives the default profile
  the slide index 0.
\<close>

theorem shown_index_not_persisted:
  "replaceEnabled abandoned_gallery
   \<and> activeProfileId abandoned_gallery = DEFAULT_PROFILE_ID
   \<and> length (images (active_profile abandoned_gallery)) = 2
   \<and> map_option fst (getCustomThumbnail 300000 [] ''live'' abandoned_gallery)
       = Some (JStr ''data:image/jpeg;base64,2'')
   \<and> map_option (lastSlideChangeTime \<circ> snd)
        (getCustomThumbnail 300000 [] ''live'' abandoned_gallery) = Some 300000
   \<and> map_option (currentSlideIndex \<circ> snd)
        (getCustomThumbnail 300000 [] ''live'' abandoned_gallery) = Some 1
   \<and> map_option ((\<lambda>s. dataStore s DATASTORE_KEY_PROFILES) \<circ> snd)
        (getCustomThumbnail 300000 [] ''live'' abandoned_gallery)
       = Some (Some (VProfiles
           \<lparr>spd_profiles =
              [\<lparr>sp_id = DEFAULT_PROFILE_ID, sp_name = ''Default'',
                sp_images = [\<lparr>si_type = ''image/jpeg'', si_data = [1]\<rparr>,
                             \<lparr>si_type = ''image/jpeg'', si_data = [2]\<rparr>],
                sp_currentIndex = 0\<rparr>],
            spd_activeProfileId = DEFAULT_PROFILE_ID\<rparr>))"
  unfolding abandoned_gallery_state
  by (simp add: getCustomThumbnail_def Let_def js_get_def initial_state_def active_profile_def
      getActiveProfile_def)

subsection \<open>Liveness\<close>

lemma session_fresh:
  "session Map.empty =
     initial_state\<lparr>profiles := [(DEFAULT_PROFILE_ID, empty_default)],
                   cacheRef := Some DEFAULT_PROFILE_ID\<rparr>"
proof -
  have "loadProfilesFromDataStore sample_rd (initial_state\<lparr>dataStore := Map.empty\<rparr>) =
     initial_state\<lparr>profiles := [(DEFAULT_PROFILE_ID, empty_default)],
                   cacheRef := Some DEFAULT_PROFILE_ID\<rparr>"
    by (subst load_fresh) (simp_all add: initial_state_def)
  then show ?thesis
    unfolding session_def start_def
    by (simp add: syncCacheWithActiveProfile_def getActiveProfile_def initial_state_def
        empty_default_def)
qed

lemma unstamped_stream_state:
  "unstamped_stream = (session Map.empty)\<lparr>isStreamActive := True\<rparr>"
  by (simp add: unstamped_stream_def triggered_def getCustomThumbnail_def session_fresh
      initial_state_def)

lemma stale_stamp_stream_fields:
  "isStreamActive stale_stamp_stream"
  "\<not> replaceEnabled stale_stamp_stream"
  "lastSlideChangeTime stale_stamp_stream = 300000"
proof -
  let ?b = "session (profile_store_of [sample_stored 1] 0)"
  let ?p = "\<lparr>pid = DEFAULT_PROFILE_ID, pname = ''Default'',
             images = map blob_of_stored [sample_stored 1],
             dataUris = map (\<lambda>img. JStr (sample_uri (blob_of_stored img))) [sample_stored 1],
             currentIndex = 0\<rparr>"
  define s1 where "s1 = triggered 300000 ?b"
  have b: "replaceEnabled ?b" "cachedDataUris ?b \<noteq> []"
    "length (cachedDataUris ?b) = 1 \<or> \<not> slideshowEnabled ?b"
    "map_of (profiles ?b) (activeProfileId ?b) = Some ?p"
    by (simp_all add: session_profile_store initial_state_def)
  have e1: "s1 = ?b\<lparr>isStreamActive := True, lastSlideChangeTime := 300000,
                      actualStreamImageUri := js_get (cachedDataUris ?b)
                        (if currentSlideIndex ?b < int (length (cachedDataUris ?b))
                         then currentSlideIndex ?b else 0)\<rparr>"
    unfolding s1_def triggered_def
    by (simp add: getCustomThumbnail_static [OF b(1,2,3)])
  have p1: "map_of (profiles s1) (activeProfileId s1) = Some ?p"
    using b(4) by (simp add: e1)
  define s2 where "s2 = handleSave 0 False False False s1"
  have f2: "\<not> replaceEnabled s2" "lastSlideChangeTime s2 = 300000"
    unfolding s2_def handleSave_present [OF p1] by (simp_all add: e1)
  have "stale_stamp_stream = triggered 780000 s2"
    by (simp add: stale_stamp_stream_def s1_def s2_def)
  also have "\<dots> = s2\<lparr>isStreamActive := True, actualStreamImageUri := JNull\<rparr>"
    using f2(1) by (simp add: triggered_def getCustomThumbnail_def)
  finally have e: "stale_stamp_stream = s2\<lparr>isStreamActive := True, actualStreamImageUri := JNull\<rparr>" .
  show "isStreamActive stale_stamp_stream" "\<not> replaceEnabled stale_stamp_stream"
    "lastSlideChangeTime stale_stamp_stream = 300000"
    using f2 by (simp_all add: e)
qed

text \<open>
  C2 fails on the code. The trigger marks the stream active on every invocation, but its
  first branch (replacement disabled, or no image) does not record the time of the
  invocation, and the one-second check compares against the time recorded last.

  \<^item> In \<open>unstamped_stream\<close> the trigger was invoked once, at 300000 ms, and nothing was ever
    recorded: the checks at 301000 ms, at 720001 ms and at 3600000 ms (55 minutes after the
    invocation) all leave the stream marked active.
  \<^item> In \<open>stale_stamp_stream\<close> the trigger was invoked at 780000 ms, and the time recorded is
    that of the invocation at 300000 ms: the check at 781000 ms, one second after the last
    invocation, marks the stream inactive.
\<close>

theorem passthrough_trigger_leaves_stamp:
  "isStreamActive unstamped_stream
   \<and> lastSlideChangeTime unstamped_stream = 0
   \<and> isStreamActive (timerInterval 3600000 unstamped_stream)
   \<and> isStreamActive (fold timerInterval [301000, 720001, 3600000] unstamped_stream)
   \<and> isStreamActive stale_stamp_stream
   \<and> lastSlideChangeTime stale_stamp_stream = 300000
   \<and> \<not> isStreamActive (timerInterval 781000 stale_stamp_stream)"
  by (simp add: stale_stamp_stream_fields timerInterval_def unstamped_stream_state session_fresh
      initial_state_def)

subsection \<open>The image cap\<close>

lemma addImage_fulfilled:
  assumes "map_of (profiles s) (activeProfileId s) = Some p" and "rd blob = Some uri"
  shows "addImage rd blob s =
     Fulfilled
       (s\<lparr>profiles := AList.update (activeProfileId s)
                        (p\<lparr>images := images p @ [blob], dataUris := dataUris p @ [JStr uri]\<rparr>)
                        (profiles s),
          dataStore := (dataStore s)(DATASTORE_KEY_PROFILES \<mapsto>
             VProfiles \<lparr>spd_profiles = map (stored_of_profile \<circ> snd)
                           (AList.update (activeProfileId s)
                              (p\<lparr>images := images p @ [blob],
                                 dataUris := dataUris p @ [JStr uri]\<rparr>) (profiles s)),
                        spd_activeProfileId = activeProfileId s\<rparr>),
          cachedImages := images p @ [blob], cachedDataUris := dataUris p @ [JStr uri],
          currentSlideIndex := currentIndex p, cacheRef := Some (activeProfileId s)\<rparr>)"
proof -
  let ?k = "activeProfileId s"
  let ?p2 = "p\<lparr>images := images p @ [blob], dataUris := dataUris p @ [JStr uri]\<rparr>"
  let ?s1 = "put_profile ?k ?p2 s"
  let ?s2 = "s\<lparr>profiles := AList.update ?k ?p2 (profiles s),
               cachedImages := images ?p2, cachedDataUris := dataUris ?p2,
               currentSlideIndex := currentIndex ?p2, cacheRef := Some ?k\<rparr>"
  have g: "getActiveProfile s = ((?k, p), s)"
    using assms(1) by (rule getActiveProfile_present)
  have a: "map_of (profiles ?s1) (activeProfileId ?s1) = Some ?p2"
    by (simp add: put_profile_present)
  have c: "syncCacheWithActiveProfile ?s1 = ?s2"
    unfolding sync_explicit [OF a]
    by (cases "cacheRef s = Some ?k") (simp_all add: put_profile_def Let_def)
  have b: "map_of (profiles ?s2) (activeProfileId ?s2) = Some ?p2"
    by (simp add: update_conv')
  have d: "addImage rd blob s = Fulfilled (saveProfilesToDataStore ?s2)"
    by (simp add: addImage_def g assms(2) Let_def c)
  show ?thesis unfolding d save_explicit [OF b] by simp
qed

lemma upload_of_one_file:
  assumes "map_of (profiles s) (activeProfileId s) = Some p"
    and "currentProfileId = activeProfileId s"
  shows "handleDroppedFiles currentProfileId [sample_file n] s =
     (if MAX_IMAGES_PER_PROFILE - int (length (images p)) \<le> 0
      then (Inl (Some LimitReached), s)
      else (Inr \<lparr>up_profileId = currentProfileId,
                 up_remaining = MAX_IMAGES_PER_PROFILE - int (length (images p)),
                 up_added = 0, up_file = sample_file n, up_rest = []\<rparr>, s))"
  using assms by (simp add: handleDroppedFiles_def Let_def sample_file_def)

lemma resume_of_one_file:
  assumes "map_of (profiles s) (activeProfileId s) = Some p"
    and "up_profileId u = activeProfileId s" and "up_file u = sample_file n"
    and "up_rest u = []"
  shows "handleDroppedFiles_resume sample_rd sample_proc u s =
     (Inl None,
      settled_state (addImage sample_rd \<lparr>btype = ''image/jpeg'', bdata = [of_nat n]\<rparr> s))"
proof -
  let ?blob = "\<lparr>btype = ''image/jpeg'', bdata = [of_nat n]\<rparr>"
  have "sample_rd ?blob = Some (sample_uri ?blob)" by (simp add: sample_rd_def)
  note f = addImage_fulfilled [where rd = sample_rd and blob = ?blob, OF assms(1) this]
  show ?thesis
    using assms
    by (simp add: handleDroppedFiles_resume_def sample_proc_def sample_file_def f
        loadImages_def update_conv')
qed

lemma lone_upload_result:
  assumes "map_of (profiles s) (activeProfileId s) = Some p"
    and "activeProfileId s = DEFAULT_PROFILE_ID"
    and "int (length (images p)) = 49"
  shows "(case handleDroppedFiles DEFAULT_PROFILE_ID [sample_file 2, sample_file 3] s of
            (Inr u, s1) \<Rightarrow> handleDroppedFiles_resume sample_rd sample_proc u s1
          | (Inl e, s1) \<Rightarrow> (Inl e, s1))
         = (Inl (Some (AddedLimitReached 1)),
            settled_state (addImage sample_rd \<lparr>btype = ''image/jpeg'', bdata = [2]\<rparr> s))"
proof -
  let ?blob = "\<lparr>btype = ''image/jpeg'', bdata = [2]\<rparr>"
  have "sample_rd ?blob = Some (sample_uri ?blob)" by (simp add: sample_rd_def)
  note f = addImage_fulfilled [where rd = sample_rd and blob = ?blob, OF assms(1) this]
  show ?thesis
    using assms
    by (simp add: handleDroppedFiles_def handleDroppedFiles_resume_def Let_def
        MAX_IMAGES_PER_PROFILE_def sample_proc_def sample_file_def f loadImages_def
        update_conv')
qed

text \<open>
  C1 fails on the code. \<^verbatim>\<open>addImage\<close> has no check of its own; the cap is the test of
  \<^verbatim>\<open>remaining\<close> in the upload handler, which reads the image count once, before it awaits the
  processing of the first file. On a profile of 49 images, two drops of one file each, the
  second coming while the first handler waits: both handlers find room for one image, both
  add theirs, neither reports an error, and the profile ends with 51 images, all of them in
  the record written to the \<^verbatim>\<open>DataStore\<close>. When the second drop comes after the first handler
  has finished, it is refused and the profile holds 50 images; and one drop of two files adds
  the first file, reports the limit at the second and leaves 50 images.
\<close>

theorem overlapping_uploads_exceed_cap:
  "MAX_IMAGES_PER_PROFILE = 50
   \<and> length (images (active_profile nearly_full_session)) = 49
   \<and> fst overlapping_uploads = Inl None
   \<and> length (images (active_profile (snd overlapping_uploads))) = 51
   \<and> (case dataStore (snd overlapping_uploads) DATASTORE_KEY_PROFILES of
        Some (VProfiles d) \<Rightarrow> map (length \<circ> sp_images) (spd_profiles d) = [51]
      | _ \<Rightarrow> False)
   \<and> fst successive_uploads = Inl (Some LimitReached)
   \<and> length (images (active_profile (snd successive_uploads))) = 50
   \<and> fst lone_upload = Inl (Some (AddedLimitReached 1))
   \<and> length (images (active_profile (snd lone_upload))) = 50"
proof -
  let ?s = "nearly_full_session"
  let ?b2 = "\<lparr>btype = ''image/jpeg'', bdata = [2]\<rparr>"
  let ?b3 = "\<lparr>btype = ''image/jpeg'', bdata = [3]\<rparr>"
  let ?imgs = "replicate 49 (blob_of_stored (sample_stored 1))"
  let ?uris = "replicate 49 (JStr (sample_uri (blob_of_stored (sample_stored 1))))"
  let ?p = "\<lparr>pid = DEFAULT_PROFILE_ID, pname = ''Default'', images = ?imgs,
             dataUris = ?uris, currentIndex = 0\<rparr>"
  let ?u2 = "\<lparr>up_profileId = DEFAULT_PROFILE_ID, up_remaining = 1, up_added = 0,
              up_file = sample_file 2, up_rest = []\<rparr>"
  let ?u3 = "\<lparr>up_profileId = DEFAULT_PROFILE_ID, up_remaining = 1, up_added = 0,
              up_file = sample_file 3, up_rest = []\<rparr>"
  have m: "MAX_IMAGES_PER_PROFILE = 50" by (simp add: MAX_IMAGES_PER_PROFILE_def)
  have p: "map_of (profiles ?s) (activeProfileId ?s) = Some ?p"
    and k: "activeProfileId ?s = DEFAULT_PROFILE_ID"
    by (simp_all add: nearly_full_session_def session_profile_store initial_state_def)
  have d2: "handleDroppedFiles DEFAULT_PROFILE_ID [sample_file 2] ?s = (Inr ?u2, ?s)"
    and d3: "handleDroppedFiles DEFAULT_PROFILE_ID [sample_file 3] ?s = (Inr ?u3, ?s)"
    by (simp_all add: upload_of_one_file [OF p k [symmetric]] m)
  have rd: "sample_rd ?b2 = Some (sample_uri ?b2)" "sample_rd ?b3 = Some (sample_uri ?b3)"
    by (simp_all add: sample_rd_def)
  note f2 = addImage_fulfilled [where rd = sample_rd and blob = ?b2, OF p rd(1)]
  define s1 where "s1 = settled_state (addImage sample_rd ?b2 ?s)"
  have r2: "handleDroppedFiles_resume sample_rd sample_proc ?u2 ?s = (Inl None, s1)"
    unfolding s1_def using resume_of_one_file [OF p, of ?u2 2] by (simp add: k)
  have p1: "map_of (profiles s1) (activeProfileId s1) = Some (?p\<lparr>images := ?imgs @ [?b2],
              dataUris := ?uris @ [JStr (sample_uri ?b2)]\<rparr>)"
    and k1: "activeProfileId s1 = DEFAULT_PROFILE_ID"
    unfolding s1_def f2 by (simp_all add: k update_conv')
  define s2 where "s2 = settled_state (addImage sample_rd ?b3 s1)"
  have r3: "handleDroppedFiles_resume sample_rd sample_proc ?u3 s1 = (Inl None, s2)"
    unfolding s2_def using resume_of_one_file [OF p1, of ?u3 3] by (simp add: k1)
  have e2: "s2 = s1\<lparr>profiles := AList.update DEFAULT_PROFILE_ID
                        (?p\<lparr>images := ?imgs @ [?b2, ?b3],
                            dataUris := ?uris @ [JStr (sample_uri ?b2), JStr (sample_uri ?b3)]\<rparr>)
                        (profiles s1),
          dataStore := (dataStore s1)(DATASTORE_KEY_PROFILES \<mapsto>
             VProfiles \<lparr>spd_profiles = map (stored_of_profile \<circ> snd)
                           (AList.update DEFAULT_PROFILE_ID
                              (?p\<lparr>images := ?imgs @ [?b2, ?b3],
                                  dataUris := ?uris @ [JStr (sample_uri ?b2),
                                                        JStr (sample_uri ?b3)]\<rparr>) (profiles s1)),
                        spd_activeProfileId = DEFAULT_PROFILE_ID\<rparr>),
          cachedImages := ?imgs @ [?b2, ?b3],
          cachedDataUris := ?uris @ [JStr (sample_uri ?b2), JStr (sample_uri ?b3)],
          currentSlideIndex := 0, cacheRef := Some DEFAULT_PROFILE_ID\<rparr>"
    unfolding s2_def addImage_fulfilled [where rd = sample_rd and blob = ?b3, OF p1 rd(2)]
    by (simp add: k1)
  have ps1: "profiles s1 = [(DEFAULT_PROFILE_ID, ?p\<lparr>images := ?imgs @ [?b2],
              dataUris := ?uris @ [JStr (sample_uri ?b2)]\<rparr>)]"
    unfolding s1_def f2
    by (simp add: k nearly_full_session_def session_profile_store initial_state_def)
  have o: "overlapping_uploads = (Inl None, s2)"
    by (simp add: overlapping_uploads_def d2 d3 r2 r3)
  have d3': "handleDroppedFiles DEFAULT_PROFILE_ID [sample_file 3] s1
             = (Inl (Some LimitReached), s1)"
    by (simp add: upload_of_one_file [OF p1 k1 [symmetric]] m)
  have q: "successive_uploads = (Inl (Some LimitReached), s1)"
    by (simp add: successive_uploads_def d2 r2 d3')
  have a0: "length (images (active_profile ?s)) = 49"
    by (simp add: active_profile_present [OF p])
  have a1: "length (images (active_profile s1)) = 50"
    by (simp add: active_profile_present [OF p1])
  have a2: "length (images (active_profile s2)) = 51"
    by (simp add: e2 active_profile_def getActiveProfile_def k1 update_conv')
  have a3: "(case dataStore s2 DATASTORE_KEY_PROFILES of
        Some (VProfiles d) \<Rightarrow> map (length \<circ> sp_images) (spd_profiles d) = [51]
      | _ \<Rightarrow> False)"
    by (simp add: e2 ps1 stored_of_profile_def)
  have l: "lone_upload = (Inl (Some (AddedLimitReached 1)), s1)"
    unfolding lone_upload_def s1_def by (rule lone_upload_result [OF p k]) simp
  show ?thesis using m a0 a1 a2 a3 by (simp add: o q l)
qed

subsection \<open>Loading and migration\<close>

lemma uint_byte: "uint (word_of_int x :: 8 word) = x mod 256"
  by (simp add: uint_word_of_int take_bit_eq_mod)

text \<open>
  C9, as amended. On load, when the multi-profile record is absent and the legacy single-list
  record is present with at least one image, every image of which can be read back as a data
  URL, the loader stores under the default key a profile named Default that holds exactly the
  legacy images, in order (each stored number taken as a byte), with the legacy slide index;
  it makes that profile active, writes under the multi-profile key the record of the whole
  profile collection (identifier, name, type and bytes of every image, and slide index of
  every profile, and the active identifier) and deletes the three legacy keys. Starting from
  no profiles the record written holds the default profile alone, with the legacy images and
  the legacy slide index. When the legacy record is absent or holds no image, and also when
  the reading of an image is rejected, the loader stores an empty default profile, makes it
  active, writes nothing and deletes nothing.
\<close>

theorem legacy_migration:
  "(let s' = loadProfilesFromDataStore rd s;
        blob = (\<lambda>img. \<lparr>btype = si_type img, bdata = map word_of_int (si_data img)\<rparr>);
        legacyIndex = (case dataStore s DATASTORE_KEY_INDEX of
                         Some (VNumber i) \<Rightarrow> i | _ \<Rightarrow> 0);
        emptyDefault = \<lparr>pid = DEFAULT_PROFILE_ID, pname = ''Default'', images = [],
                        dataUris = [], currentIndex = 0\<rparr>
    in
    (dataStore s DATASTORE_KEY_PROFILES = None
      \<and> dataStore s DATASTORE_KEY_SLIDESHOW = Some (VSlideshow oldData)
      \<and> ss_images oldData \<noteq> []
      \<and> (\<forall>img \<in> set (ss_images oldData). rd (blob img) \<noteq> None) \<longrightarrow>
        profiles s' =
          AList.update DEFAULT_PROFILE_ID
            \<lparr>pid = DEFAULT_PROFILE_ID, pname = ''Default'',
             images = map blob (ss_images oldData),
             dataUris = map (\<lambda>img. JStr (the (rd (blob img)))) (ss_images oldData),
             currentIndex = legacyIndex\<rparr> (profiles s)
      \<and> activeProfileId s' = DEFAULT_PROFILE_ID
      \<and> dataStore s' =
          (dataStore s)
            (DATASTORE_KEY_PROFILES \<mapsto>
               VProfiles
                 \<lparr>spd_profiles =
                    map (\<lambda>kp. \<lparr>sp_id = pid (snd kp), sp_name = pname (snd kp),
                                sp_images =
                                  map (\<lambda>b. \<lparr>si_type = btype b, si_data = map uint (bdata b)\<rparr>)
                                    (images (snd kp)),
                                sp_currentIndex = currentIndex (snd kp)\<rparr>) (profiles s'),
                  spd_activeProfileId = DEFAULT_PROFILE_ID\<rparr>,
             DATASTORE_KEY_SLIDESHOW := None, DATASTORE_KEY_INDEX := None,
             DATASTORE_KEY := None)
      \<and> (profiles s = [] \<longrightarrow>
           dataStore s' DATASTORE_KEY_PROFILES =
             Some (VProfiles
               \<lparr>spd_profiles =
                  [\<lparr>sp_id = DEFAULT_PROFILE_ID, sp_name = ''Default'',
                    sp_images =
                      map (\<lambda>img. \<lparr>si_type = si_type img,
                                   si_data = map (\<lambda>x. x mod 256) (si_data img)\<rparr>)
                        (ss_images oldData),
                    sp_currentIndex = legacyIndex\<rparr>],
                spd_activeProfileId = DEFAULT_PROFILE_ID\<rparr>)))
    \<and> (dataStore s DATASTORE_KEY_PROFILES = None
        \<and> (dataStore s DATASTORE_KEY_SLIDESHOW = None
           \<or> dataStore s DATASTORE_KEY_SLIDESHOW = Some (VSlideshow \<lparr>ss_images = []\<rparr>)
           \<or> dataStore s DATASTORE_KEY_SLIDESHOW = Some (VSlideshow oldData)
              \<and> (\<exists>img \<in> set (ss_images oldData). rd (blob img) = None)) \<longrightarrow>
        map_of (profiles s') DEFAULT_PROFILE_ID = Some emptyDefault
      \<and> activeProfileId s' = DEFAULT_PROFILE_ID
      \<and> dataStore s' = dataStore s
      \<and> (profiles s = [] \<longrightarrow> profiles s' = [(DEFAULT_PROFILE_ID, emptyDefault)])))"
proof -
  let ?s' = "loadProfilesFromDataStore rd s"
  let ?blob = "\<lambda>img. \<lparr>btype = si_type img, bdata = map word_of_int (si_data img)\<rparr>"
  let ?ix = "case dataStore s DATASTORE_KEY_INDEX of Some (VNumber i) \<Rightarrow> i | _ \<Rightarrow> 0"
  let ?e = "\<lparr>pid = DEFAULT_PROFILE_ID, pname = ''Default'', images = [],
             dataUris = [], currentIndex = 0\<rparr>"
  let ?ser = "\<lambda>kp. \<lparr>sp_id = pid (snd kp), sp_name = pname (snd kp),
                       sp_images =
                         map (\<lambda>b. \<lparr>si_type = btype b, si_data = map uint (bdata b)\<rparr>)
                           (images (snd kp)),
                       sp_currentIndex = currentIndex (snd kp)\<rparr>"
  have bl: "blob_of_stored = ?blob" by (rule ext) (simp add: blob_of_stored_def)
  have se: "stored_of_profile \<circ> snd = ?ser"
    by (rule ext) (simp add: stored_of_profile_def stored_of_blob_def)
  have ix: "loadSlideIndex s = ?ix" by (simp add: loadSlideIndex_def)
  have em: "empty_default = ?e" by (simp add: empty_default_def)
  have A: "profiles ?s' =
          AList.update DEFAULT_PROFILE_ID
            \<lparr>pid = DEFAULT_PROFILE_ID, pname = ''Default'',
             images = map ?blob (ss_images oldData),
             dataUris = map (\<lambda>img. JStr (the (rd (?blob img)))) (ss_images oldData),
             currentIndex = ?ix\<rparr> (profiles s)
      \<and> activeProfileId ?s' = DEFAULT_PROFILE_ID
      \<and> dataStore ?s' =
          (dataStore s)
            (DATASTORE_KEY_PROFILES \<mapsto>
               VProfiles \<lparr>spd_profiles = map ?ser (profiles ?s'),
                          spd_activeProfileId = DEFAULT_PROFILE_ID\<rparr>,
             DATASTORE_KEY_SLIDESHOW := None, DATASTORE_KEY_INDEX := None,
             DATASTORE_KEY := None)
      \<and> (profiles s = [] \<longrightarrow>
           dataStore ?s' DATASTORE_KEY_PROFILES =
             Some (VProfiles
               \<lparr>spd_profiles =
                  [\<lparr>sp_id = DEFAULT_PROFILE_ID, sp_name = ''Default'',
                    sp_images =
                      map (\<lambda>img. \<lparr>si_type = si_type img,
                                   si_data = map (\<lambda>x. x mod 256) (si_data img)\<rparr>)
                        (ss_images oldData),
                    sp_currentIndex = ?ix\<rparr>],
                spd_activeProfileId = DEFAULT_PROFILE_ID\<rparr>))"
    if a: "dataStore s DATASTORE_KEY_PROFILES = None"
      "dataStore s DATASTORE_KEY_SLIDESHOW = Some (VSlideshow oldData)"
      "ss_images oldData \<noteq> []"
      "\<forall>img \<in> set (ss_images oldData). rd (?blob img) \<noteq> None"
  proof -
    have a4: "\<forall>img \<in> set (ss_images oldData). rd (blob_of_stored img) \<noteq> None"
      using a(4) by (simp add: bl)
    note l = load_migrates [OF a(1-3) a4, unfolded bl se ix]
    have 1: "profiles ?s' =
          AList.update DEFAULT_PROFILE_ID
            \<lparr>pid = DEFAULT_PROFILE_ID, pname = ''Default'',
             images = map ?blob (ss_images oldData),
             dataUris = map (\<lambda>img. JStr (the (rd (?blob img)))) (ss_images oldData),
             currentIndex = ?ix\<rparr> (profiles s)"
      by (simp add: l)
    have 2: "activeProfileId ?s' = DEFAULT_PROFILE_ID" by (simp add: l)
    have 3: "dataStore ?s' =
          (dataStore s)
            (DATASTORE_KEY_PROFILES \<mapsto>
               VProfiles \<lparr>spd_profiles = map ?ser (profiles ?s'),
                          spd_activeProfileId = DEFAULT_PROFILE_ID\<rparr>,
             DATASTORE_KEY_SLIDESHOW := None, DATASTORE_KEY_INDEX := None,
             DATASTORE_KEY := None)"
      unfolding 1 by (simp add: l)
    have 4: "dataStore ?s' DATASTORE_KEY_PROFILES =
             Some (VProfiles
               \<lparr>spd_profiles =
                  [\<lparr>sp_id = DEFAULT_PROFILE_ID, sp_name = ''Default'',
                    sp_images =
                      map (\<lambda>img. \<lparr>si_type = si_type img,
                                   si_data = map (\<lambda>x. x mod 256) (si_data img)\<rparr>)
                        (ss_images oldData),
                    sp_currentIndex = ?ix\<rparr>],
                spd_activeProfileId = DEFAULT_PROFILE_ID\<rparr>)"
      if "profiles s = []"
      unfolding 3 1 using that
      by (simp add: keys_distinct keys_distinct [symmetric] comp_def uint_byte)
    from 1 2 3 4 show ?thesis by blast
  qed
  have B: "map_of (profiles ?s') DEFAULT_PROFILE_ID = Some ?e
      \<and> activeProfileId ?s' = DEFAULT_PROFILE_ID
      \<and> dataStore ?s' = dataStore s
      \<and> (profiles s = [] \<longrightarrow> profiles ?s' = [(DEFAULT_PROFILE_ID, ?e)])"
    if b: "dataStore s DATASTORE_KEY_PROFILES = None"
      "dataStore s DATASTORE_KEY_SLIDESHOW = None
       \<or> dataStore s DATASTORE_KEY_SLIDESHOW = Some (VSlideshow \<lparr>ss_images = []\<rparr>)
       \<or> dataStore s DATASTORE_KEY_SLIDESHOW = Some (VSlideshow oldData)
          \<and> (\<exists>img \<in> set (ss_images oldData). rd (?blob img) = None)"
  proof -
    consider
      (fresh) "dataStore s DATASTORE_KEY_SLIDESHOW = None
               \<or> dataStore s DATASTORE_KEY_SLIDESHOW = Some (VSlideshow \<lparr>ss_images = []\<rparr>)"
      | (rejected) img where "dataStore s DATASTORE_KEY_SLIDESHOW = Some (VSlideshow oldData)"
          "img \<in> set (ss_images oldData)" "rd (?blob img) = None"
      using b(2) by blast
    then show ?thesis
    proof cases
      case fresh
      note l = load_fresh [OF b(1) fresh, of rd, unfolded em]
      show ?thesis by (simp add: l update_conv')
    next
      case rejected
      have "rd (blob_of_stored img) = None" using rejected(3) by (simp add: bl)
      note l = load_rejected [where rd = rd and img = img and s = s and oldData = oldData,
          OF b(1) rejected(1) this rejected(2), unfolded em]
      show ?thesis by (simp add: l update_conv')
    qed
  qed
  from A B show ?thesis unfolding Let_def by blast
qed

theorem legacy_migration_witness:
  "dataStore (initial_state\<lparr>dataStore := legacy_store\<rparr>) DATASTORE_KEY_PROFILES = None
   \<and> dataStore (initial_state\<lparr>dataStore := legacy_store\<rparr>) DATASTORE_KEY_SLIDESHOW =
       Some (VSlideshow \<lparr>ss_images = [\<lparr>si_type = ''image/jpeg'', si_data = [1]\<rparr>,
                                       \<lparr>si_type = ''image/jpeg'', si_data = [2]\<rparr>]\<rparr>)
   \<and> dataStore (initial_state\<lparr>dataStore := legacy_store\<rparr>) DATASTORE_KEY_INDEX
       = Some (VNumber 1)
   \<and> profiles (initial_state\<lparr>dataStore := legacy_store\<rparr>) = []
   \<and> profiles (loadProfilesFromDataStore sample_rd
                (initial_state\<lparr>dataStore := legacy_store\<rparr>)) =
       [(DEFAULT_PROFILE_ID,
         \<lparr>pid = DEFAULT_PROFILE_ID, pname = ''Default'',
          images = [\<lparr>btype = ''image/jpeg'', bdata = [1]\<rparr>,
                    \<lparr>btype = ''image/jpeg'', bdata = [2]\<rparr>],
          dataUris = [JStr ''data:image/jpeg;base64,1'', JStr ''data:image/jpeg;base64,2''],
          currentIndex = 1\<rparr>)]
   \<and> activeProfileId (loadProfilesFromDataStore sample_rd
                (initial_state\<lparr>dataStore := legacy_store\<rparr>)) = DEFAULT_PROFILE_ID
   \<and> dataStore (loadProfilesFromDataStore sample_rd
                (initial_state\<lparr>dataStore := legacy_store\<rparr>)) DATASTORE_KEY_PROFILES =
       Some (VProfiles
         \<lparr>spd_profiles =
            [\<lparr>sp_id = DEFAULT_PROFILE_ID, sp_name = ''Default'',
              sp_images = [\<lparr>si_type = ''image/jpeg'', si_data = [1]\<rparr>,
                           \<lparr>si_type = ''image/jpeg'', si_data = [2]\<rparr>],
              sp_currentIndex = 1\<rparr>],
          spd_activeProfileId = DEFAULT_PROFILE_ID\<rparr>)
   \<and> dataStore (loadProfilesFromDataStore sample_rd
                (initial_state\<lparr>dataStore := legacy_store\<rparr>)) DATASTORE_KEY_SLIDESHOW = None
   \<and> dataStore (loadProfilesFromDataStore sample_rd
                (initial_state\<lparr>dataStore := legacy_store\<rparr>)) DATASTORE_KEY_INDEX = None
   \<and> dataStore (loadProfilesFromDataStore sample_rd
                (initial_state\<lparr>dataStore := legacy_store\<rparr>)) DATASTORE_KEY = None
   \<and> dataStore initial_state DATASTORE_KEY_PROFILES = None
   \<and> dataStore initial_state DATASTORE_KEY_SLIDESHOW = None
   \<and> profiles initial_state = []
   \<and> profiles (loadProfilesFromDataStore sample_rd initial_state) =
       [(DEFAULT_PROFILE_ID,
         \<lparr>pid = DEFAULT_PROFILE_ID, pname = ''Default'', images = [], dataUris = [],
          currentIndex = 0\<rparr>)]
   \<and> activeProfileId (loadProfilesFromDataStore sample_rd initial_state) = DEFAULT_PROFILE_ID
   \<and> dataStore (loadProfilesFromDataStore sample_rd initial_state) = dataStore initial_state
   \<and> failing_rd \<lparr>btype = ''image/jpeg'', bdata = [1]\<rparr> = None
   \<and> profiles (loadProfilesFromDataStore failing_rd
                (initial_state\<lparr>dataStore := legacy_store\<rparr>)) =
       [(DEFAULT_PROFILE_ID,
         \<lparr>pid = DEFAULT_PROFILE_ID, pname = ''Default'', images = [], dataUris = [],
          currentIndex = 0\<rparr>)]
   \<and> dataStore (loadProfilesFromDataStore failing_rd
                (initial_state\<lparr>dataStore := legacy_store\<rparr>)) = legacy_store
   \<and> dataStore (initial_state\<lparr>dataStore := legacy_store_of [] 0\<rparr>) DATASTORE_KEY_PROFILES
       = None
   \<and> dataStore (initial_state\<lparr>dataStore := legacy_store_of [] 0\<rparr>) DATASTORE_KEY_SLIDESHOW
       = Some (VSlideshow \<lparr>ss_images = []\<rparr>)
   \<and> profiles (loadProfilesFromDataStore sample_rd
                (initial_state\<lparr>dataStore := legacy_store_of [] 0\<rparr>)) =
       [(DEFAULT_PROFILE_ID,
         \<lparr>pid = DEFAULT_PROFILE_ID, pname = ''Default'', images = [], dataUris = [],
          currentIndex = 0\<rparr>)]
   \<and> dataStore (loadProfilesFromDataStore sample_rd
                (initial_state\<lparr>dataStore := legacy_store_of [] 0\<rparr>)) = legacy_store_of [] 0"
proof -
  let ?s = "initial_state\<lparr>dataStore := legacy_store\<rparr>"
  let ?old = "\<lparr>ss_images = [\<lparr>si_type = ''image/jpeg'', si_data = [1]\<rparr>,
                             \<lparr>si_type = ''image/jpeg'', si_data = [2]\<rparr>]\<rparr>"
  let ?blob = "\<lambda>img. \<lparr>btype = si_type img, bdata = map word_of_int (si_data img)\<rparr>"
  have h: "dataStore ?s DATASTORE_KEY_PROFILES = None"
    "dataStore ?s DATASTORE_KEY_SLIDESHOW = Some (VSlideshow ?old)"
    "dataStore ?s DATASTORE_KEY_INDEX = Some (VNumber 1)"
    "profiles ?s = []" "dataStore ?s = legacy_store"
    by (simp_all add: initial_state_def legacy_store_def legacy_store_of_def sample_stored_def
        keys_distinct)
  have r: "ss_images ?old \<noteq> []"
    "\<forall>img \<in> set (ss_images ?old). sample_rd (?blob img) \<noteq> None"
    "\<exists>img \<in> set (ss_images ?old). failing_rd (?blob img) = None"
    "failing_rd \<lparr>btype = ''image/jpeg'', bdata = [1]\<rparr> = None"
    by (auto simp: sample_rd_def failing_rd_def)
  have i: "dataStore initial_state DATASTORE_KEY_PROFILES = None"
    "dataStore initial_state DATASTORE_KEY_SLIDESHOW = None"
    "profiles initial_state = []"
    by (simp_all add: initial_state_def)
  from legacy_migration [of sample_rd ?s ?old] h r(1,2)
  have a: "profiles (loadProfilesFromDataStore sample_rd ?s) =
       [(DEFAULT_PROFILE_ID,
         \<lparr>pid = DEFAULT_PROFILE_ID, pname = ''Default'',
          images = [\<lparr>btype = ''image/jpeg'', bdata = [1]\<rparr>,
                    \<lparr>btype = ''image/jpeg'', bdata = [2]\<rparr>],
          dataUris = [JStr ''data:image/jpeg;base64,1'', JStr ''data:image/jpeg;base64,2''],
          currentIndex = 1\<rparr>)]"
    "activeProfileId (loadProfilesFromDataStore sample_rd ?s) = DEFAULT_PROFILE_ID"
    "dataStore (loadProfilesFromDataStore sample_rd ?s) DATASTORE_KEY_PROFILES =
       Some (VProfiles
         \<lparr>spd_profiles =
            [\<lparr>sp_id = DEFAULT_PROFILE_ID, sp_name = ''Default'',
              sp_images = [\<lparr>si_type = ''image/jpeg'', si_data = [1]\<rparr>,
                           \<lparr>si_type = ''image/jpeg'', si_data = [2]\<rparr>],
              sp_currentIndex = 1\<rparr>],
          spd_activeProfileId = DEFAULT_PROFILE_ID\<rparr>)"
    "dataStore (loadProfilesFromDataStore sample_rd ?s) DATASTORE_KEY_SLIDESHOW = None"
    "dataStore (loadProfilesFromDataStore sample_rd ?s) DATASTORE_KEY_INDEX = None"
    "dataStore (loadProfilesFromDataStore sample_rd ?s) DATASTORE_KEY = None"
    by (simp_all add: Let_def sample_rd_def sample_uri_def sample_digit_def keys_distinct
        keys_distinct [symmetric])
  from legacy_migration [of sample_rd initial_state ?old] i
  have b: "profiles (loadProfilesFromDataStore sample_rd initial_state) =
       [(DEFAULT_PROFILE_ID,
         \<lparr>pid = DEFAULT_PROFILE_ID, pname = ''Default'', images = [], dataUris = [],
          currentIndex = 0\<rparr>)]"
    "activeProfileId (loadProfilesFromDataStore sample_rd initial_state) = DEFAULT_PROFILE_ID"
    "dataStore (loadProfilesFromDataStore sample_rd initial_state) = dataStore initial_state"
    by (simp_all add: Let_def)
  from legacy_migration [of failing_rd ?s ?old] h r(3)
  have c: "profiles (loadProfilesFromDataStore failing_rd ?s) =
       [(DEFAULT_PROFILE_ID,
         \<lparr>pid = DEFAULT_PROFILE_ID, pname = ''Default'', images = [], dataUris = [],
          currentIndex = 0\<rparr>)]"
    "dataStore (loadProfilesFromDataStore failing_rd ?s) = legacy_store"
    by (simp_all add: Let_def)
  let ?e = "initial_state\<lparr>dataStore := legacy_store_of [] 0\<rparr>"
  have g: "dataStore ?e DATASTORE_KEY_PROFILES = None"
    "dataStore ?e DATASTORE_KEY_SLIDESHOW = Some (VSlideshow \<lparr>ss_images = []\<rparr>)"
    "profiles ?e = []" "dataStore ?e = legacy_store_of [] 0"
    by (simp_all add: initial_state_def legacy_store_of_def keys_distinct)
  from legacy_migration [of sample_rd ?e ?old] g(1-3)
  have d: "profiles (loadProfilesFromDataStore sample_rd ?e) =
       [(DEFAULT_PROFILE_ID,
         \<lparr>pid = DEFAULT_PROFILE_ID, pname = ''Default'', images = [], dataUris = [],
          currentIndex = 0\<rparr>)]"
    "dataStore (loadProfilesFromDataStore sample_rd ?e) = legacy_store_of [] 0"
    by (simp_all add: Let_def g(4))
  from h(1-4) r(4) i a b c g(1,2) d show ?thesis by simp
qed

text \<open>
  C9 as stated fails. With the multi-profile record absent and a legacy record that holds no
  image, the loader writes no multi-profile record and keeps the legacy keys. With the legacy
  record of two images and a reader that rejects, the default profile holds no image,
  no multi-profile record is written and the legacy keys are kept.
\<close>

theorem empty_or_unreadable_legacy_record_not_migrated:
  "dataStore (initial_state\<lparr>dataStore := legacy_store_of [] 0\<rparr>) DATASTORE_KEY_PROFILES = None
   \<and> dataStore (initial_state\<lparr>dataStore := legacy_store_of [] 0\<rparr>) DATASTORE_KEY_SLIDESHOW
       = Some (VSlideshow \<lparr>ss_images = []\<rparr>)
   \<and> dataStore (loadProfilesFromDataStore sample_rd
        (initial_state\<lparr>dataStore := legacy_store_of [] 0\<rparr>)) DATASTORE_KEY_PROFILES = None
   \<and> dataStore (loadProfilesFromDataStore sample_rd
        (initial_state\<lparr>dataStore := legacy_store_of [] 0\<rparr>)) DATASTORE_KEY_SLIDESHOW
       = Some (VSlideshow \<lparr>ss_images = []\<rparr>)
   \<and> dataStore (loadProfilesFromDataStore sample_rd
        (initial_state\<lparr>dataStore := legacy_store_of [] 0\<rparr>)) DATASTORE_KEY_INDEX
       = Some (VNumber 0)
   \<and> dataStore (initial_state\<lparr>dataStore := legacy_store\<rparr>) DATASTORE_KEY_SLIDESHOW
       = Some (VSlideshow \<lparr>ss_images = [sample_stored 1, sample_stored 2]\<rparr>)
   \<and> images (active_profile (loadProfilesFromDataStore failing_rd
        (initial_state\<lparr>dataStore := legacy_store\<rparr>))) = []
   \<and> dataStore (loadProfilesFromDataStore failing_rd
        (initial_state\<lparr>dataStore := legacy_store\<rparr>)) DATASTORE_KEY_PROFILES = None
   \<and> dataStore (loadProfilesFromDataStore failing_rd
        (initial_state\<lparr>dataStore := legacy_store\<rparr>)) DATASTORE_KEY_SLIDESHOW
       = Some (VSlideshow \<lparr>ss_images = [sample_stored 1, sample_stored 2]\<rparr>)
   \<and> dataStore (loadProfilesFromDataStore failing_rd
        (initial_state\<lparr>dataStore := legacy_store\<rparr>)) DATASTORE_KEY_INDEX
       = Some (VNumber 1)"
proof -
  let ?e = "initial_state\<lparr>dataStore := legacy_store_of [] 0\<rparr>"
  let ?s = "initial_state\<lparr>dataStore := legacy_store\<rparr>"
  have e: "dataStore ?e DATASTORE_KEY_PROFILES = None"
    "dataStore ?e DATASTORE_KEY_SLIDESHOW = Some (VSlideshow \<lparr>ss_images = []\<rparr>)"
    "dataStore ?e DATASTORE_KEY_INDEX = Some (VNumber 0)"
    by (simp_all add: legacy_store_of_def keys_distinct keys_distinct [symmetric])
  have s: "dataStore ?s DATASTORE_KEY_PROFILES = None"
    "dataStore ?s DATASTORE_KEY_SLIDESHOW
       = Some (VSlideshow \<lparr>ss_images = [sample_stored 1, sample_stored 2]\<rparr>)"
    "dataStore ?s DATASTORE_KEY_INDEX = Some (VNumber 1)"
    by (simp_all add: legacy_store_def legacy_store_of_def keys_distinct
        keys_distinct [symmetric])
  have le: "loadProfilesFromDataStore sample_rd ?e =
     ?e\<lparr>profiles := AList.update DEFAULT_PROFILE_ID empty_default (profiles ?e),
       activeProfileId := DEFAULT_PROFILE_ID,
       cachedImages := [], cachedDataUris := [], currentSlideIndex := 0,
       cacheRef := Some DEFAULT_PROFILE_ID\<rparr>"
    using e by (intro load_fresh) simp_all
  have ls: "loadProfilesFromDataStore failing_rd ?s =
     ?s\<lparr>profiles := AList.update DEFAULT_PROFILE_ID empty_default (profiles ?s),
       cacheRef := (if cacheRef ?s = Some DEFAULT_PROFILE_ID then None else cacheRef ?s),
       activeProfileId := DEFAULT_PROFILE_ID\<rparr>"
    by (rule load_rejected [where rd = failing_rd and img = "sample_stored 1", OF s(1,2)])
       (simp_all add: failing_rd_def)
  have a: "images (active_profile (loadProfilesFromDataStore failing_rd ?s)) = []"
    unfolding ls
    by (simp add: active_profile_def getActiveProfile_def update_conv' empty_default_def)
  show ?thesis using e s a by (simp add: le ls)
qed

end
